theory Spec2Isabelle
  imports Complex_Main "HOL-Library.Log_Nat"
begin

section \<open>JavaScript numbers\<close>

text \<open>
  The monitor computes with JavaScript numbers, which are IEEE 754 binary64 values.
  A finite value is kept as a sign (\<open>True\<close> is negative) and a magnitude, so that the
  two zeros \<open>+0\<close> and \<open>-0\<close> are distinct values; the infinities carry their sign as well.
  Every arithmetic operation computes the exact rational result and rounds it to the
  nearest representable value, ties to the even significand.
\<close>

datatype jsnum = Fin bool rat | Inf bool | NaN

definition sval :: "bool \<Rightarrow> rat \<Rightarrow> rat" where
  "sval s m = (if s then - m else m)"

text \<open>The binary exponent of a positive rational: \<open>2 powi ilog2 x \<le> x < 2 powi (ilog2 x + 1)\<close>.\<close>

definition ilog2 :: "rat \<Rightarrow> int" where
  "ilog2 x = (if 1 \<le> x then bitlen \<lfloor>x\<rfloor> - 1 else - bitlen (\<lceil>1 / x\<rceil> - 1))"

text \<open>Rounding a rational to an integer, halves to the even neighbour.\<close>

definition rhe :: "rat \<Rightarrow> int" where
  "rhe q = (let f = \<lfloor>q\<rfloor>; d = q - of_int f in
            if d < 1 / 2 then f
            else if 1 / 2 < d then f + 1
            else if even f then f else f + 1)"

text \<open>
  The exponent of the unit in the last place: 53 significant bits, and the exponent is
  never below that of the subnormal numbers.
\<close>

definition ulp_exp :: "rat \<Rightarrow> int" where
  "ulp_exp x = max (ilog2 x) (- 1022) - 52"

text \<open>Rounding a magnitude to 53 significant bits, before the overflow check.\<close>

definition rnd :: "rat \<Rightarrow> rat" where
  "rnd x = (if x = 0 then 0 else of_int (rhe (x / 2 powi ulp_exp x)) * 2 powi ulp_exp x)"

text \<open>
  The rounded value with its sign. The largest binary exponent of a finite value is 1023:
  a rounded magnitude of \<open>2 ^ 1024\<close> or more overflows to an infinity.
\<close>

definition mk :: "bool \<Rightarrow> rat \<Rightarrow> jsnum" where
  "mk s x = (let r = rnd x in if 1024 \<le> ilog2 r then Inf s else Fin s r)"

text \<open>A value of the model is a binary64 value when rounding leaves its magnitude alone.\<close>

fun is_double :: "jsnum \<Rightarrow> bool" where
  "is_double (Fin s m) = (0 \<le> m \<and> rnd m = m \<and> ilog2 m < 1024)"
| "is_double (Inf s) = True"
| "is_double NaN = True"

fun jsneg :: "jsnum \<Rightarrow> jsnum" where
  "jsneg (Fin s m) = Fin (\<not> s) m"
| "jsneg (Inf s) = Inf (\<not> s)"
| "jsneg NaN = NaN"

fun jsabs :: "jsnum \<Rightarrow> jsnum" where
  "jsabs (Fin s m) = Fin False m"
| "jsabs (Inf s) = Inf False"
| "jsabs NaN = NaN"

fun jsadd :: "jsnum \<Rightarrow> jsnum \<Rightarrow> jsnum" where
  "jsadd NaN y = NaN"
| "jsadd x NaN = NaN"
| "jsadd (Inf s) (Inf t) = (if s = t then Inf s else NaN)"
| "jsadd (Inf s) (Fin t n) = Inf s"
| "jsadd (Fin s m) (Inf t) = Inf t"
| "jsadd (Fin s m) (Fin t n) =
     (let v = sval s m + sval t n in
      if v = 0 then Fin (s \<and> t) 0 else mk (v < 0) \<bar>v\<bar>)"

definition jssub :: "jsnum \<Rightarrow> jsnum \<Rightarrow> jsnum" where
  "jssub x y = jsadd x (jsneg y)"

fun jsmul :: "jsnum \<Rightarrow> jsnum \<Rightarrow> jsnum" where
  "jsmul NaN y = NaN"
| "jsmul x NaN = NaN"
| "jsmul (Inf s) (Inf t) = Inf (s \<noteq> t)"
| "jsmul (Inf s) (Fin t n) = (if n = 0 then NaN else Inf (s \<noteq> t))"
| "jsmul (Fin s m) (Inf t) = (if m = 0 then NaN else Inf (s \<noteq> t))"
| "jsmul (Fin s m) (Fin t n) = mk (s \<noteq> t) (m * n)"

fun jsdiv :: "jsnum \<Rightarrow> jsnum \<Rightarrow> jsnum" where
  "jsdiv NaN y = NaN"
| "jsdiv x NaN = NaN"
| "jsdiv (Inf s) (Inf t) = NaN"
| "jsdiv (Inf s) (Fin t n) = Inf (s \<noteq> t)"
| "jsdiv (Fin s m) (Inf t) = Fin (s \<noteq> t) 0"
| "jsdiv (Fin s m) (Fin t n) =
     (if n = 0 then (if m = 0 then NaN else Inf (s \<noteq> t)) else mk (s \<noteq> t) (m / n))"

text \<open>The comparisons \<open><\<close>, \<open>>\<close>, \<open>===\<close> and \<open><=\<close>: false whenever an operand is NaN.\<close>

fun jslt :: "jsnum \<Rightarrow> jsnum \<Rightarrow> bool" where
  "jslt NaN y = False"
| "jslt x NaN = False"
| "jslt (Inf s) (Inf t) = (s \<and> \<not> t)"
| "jslt (Inf s) (Fin t n) = s"
| "jslt (Fin s m) (Inf t) = (\<not> t)"
| "jslt (Fin s m) (Fin t n) = (sval s m < sval t n)"

definition jsgt :: "jsnum \<Rightarrow> jsnum \<Rightarrow> bool" where
  "jsgt x y = jslt y x"

fun jseq :: "jsnum \<Rightarrow> jsnum \<Rightarrow> bool" where
  "jseq (Fin s m) (Fin t n) = (sval s m = sval t n)"
| "jseq (Inf s) (Inf t) = (s = t)"
| "jseq x y = False"

definition jsle :: "jsnum \<Rightarrow> jsnum \<Rightarrow> bool" where
  "jsle x y = (jslt x y \<or> jseq x y)"

text \<open>\<open>Number(n)\<close> for a BigInt \<open>n\<close>: the nearest binary64 value.\<close>

definition Number_of_bigint :: "int \<Rightarrow> jsnum" where
  "Number_of_bigint n = mk (n < 0) (of_int \<bar>n\<bar>)"


section \<open>Values, errors and configuration\<close>

text \<open>
  A raw price sample reaches \<open>calculatePrice\<close> as a BigInt (what the contract library
  delivers for a \<open>uint160\<close>) or as a number; \<open>BigInt(v)\<close> converts it and throws a
  RangeError for a number that is not an integer.
\<close>

datatype jsval = VBigInt int | VNumber jsnum

datatype js_error = RangeError | TypeError | Error string

definition bindE :: "js_error + 'a \<Rightarrow> ('a \<Rightarrow> js_error + 'b) \<Rightarrow> js_error + 'b" where
  "bindE r f = (case r of Inl e \<Rightarrow> Inl e | Inr v \<Rightarrow> f v)"

fun BigInt :: "jsval \<Rightarrow> js_error + int" where
  "BigInt (VBigInt n) = Inr n"
| "BigInt (VNumber (Fin s m)) =
     (if of_int \<lfloor>m\<rfloor> = m then Inr (if s then - \<lfloor>m\<rfloor> else \<lfloor>m\<rfloor>) else Inl RangeError)"
| "BigInt (VNumber (Inf s)) = Inl RangeError"
| "BigInt (VNumber NaN) = Inl RangeError"

text \<open>\<open>b ** e\<close> on BigInts throws a RangeError for a negative exponent.\<close>

definition bigint_pow :: "int \<Rightarrow> int \<Rightarrow> js_error + int" where
  "bigint_pow b e = (if e < 0 then Inl RangeError else Inr (b ^ nat e))"

text \<open>
  The configuration module: token decimals (integers, from \<open>parseIntSafe\<close>), the price
  change threshold and the cost table (numbers, from \<open>parseFloatSafe\<close>). The three-venue
  monitor reads \<open>pancakeFixedFeeUSDC\<close> and \<open>pancakeGasFeeUSDC\<close> from the same cost table;
  the configuration module of the two-venue monitor does not list them, so they are
  parameters here, numbers like their Uniswap and Aerodrome siblings.
\<close>

record costs_config =
  uniswapGasFeeUSDC :: jsnum
  aerodromeGasFeeUSDC :: jsnum
  aerodromeFeeBps :: jsnum
  pancakeFixedFeeUSDC :: jsnum
  pancakeGasFeeUSDC :: jsnum

record config =
  cbBTC_decimals :: int
  USDC_decimals :: int
  priceChange :: jsnum
  costs :: costs_config

section \<open>Price derivation\<close>

definition Q96 :: int where
  "Q96 = 2 ^ 96"

definition calculatePrice :: "config \<Rightarrow> jsval \<Rightarrow> bool \<Rightarrow> js_error + jsnum" where
  "calculatePrice cfg sqrtPriceX96 isInverted =
     bindE (BigInt sqrtPriceX96) (\<lambda>sqrtPriceX96BigInt.
       if isInverted then
         bindE (bigint_pow 10 (USDC_decimals cfg)) (\<lambda>pu.
         bindE (bigint_pow 10 (cbBTC_decimals cfg)) (\<lambda>pc.
           let numerator = sqrtPriceX96BigInt * sqrtPriceX96BigInt * pu;
               denominator = Q96 * Q96 * pc;
               cbBTCperUSDC = jsdiv (Number_of_bigint numerator) (Number_of_bigint denominator)
           in Inr (jsdiv (Fin False 1) cbBTCperUSDC)))
       else
         bindE (bigint_pow 10 (USDC_decimals cfg)) (\<lambda>pu.
         bindE (bigint_pow 10 (cbBTC_decimals cfg)) (\<lambda>pc.
           let numerator = sqrtPriceX96BigInt * sqrtPriceX96BigInt * pu;
               denominator = Q96 * Q96 * pc
           in Inr (jsdiv (Number_of_bigint numerator) (Number_of_bigint denominator)))))"

definition calculateAerodromePrice :: "config \<Rightarrow> jsval \<Rightarrow> bool \<Rightarrow> js_error + jsnum" where
  "calculateAerodromePrice cfg sqrtPriceX96 isInverted =
     bindE (BigInt sqrtPriceX96) (\<lambda>sqrtPriceX96BigInt.
       if isInverted then
         bindE (bigint_pow 10 (USDC_decimals cfg)) (\<lambda>pu.
         bindE (bigint_pow 10 (cbBTC_decimals cfg)) (\<lambda>pc.
           let numerator = sqrtPriceX96BigInt * sqrtPriceX96BigInt * pu;
               denominator = Q96 * Q96 * pc;
               cbBTCperUSDC = jsdiv (Number_of_bigint numerator) (Number_of_bigint denominator)
           in Inr (jsdiv (Fin False 1) cbBTCperUSDC)))
       else
         bindE (bigint_pow 10 (USDC_decimals cfg)) (\<lambda>pu.
         bindE (bigint_pow 10 (cbBTC_decimals cfg)) (\<lambda>pc.
           let numerator = sqrtPriceX96BigInt * sqrtPriceX96BigInt * pu;
               denominator = Q96 * Q96 * pc
           in Inr (jsdiv (Number_of_bigint numerator) (Number_of_bigint denominator)))))"

definition calculateSpread :: "jsnum \<Rightarrow> jsnum \<Rightarrow> jsnum" where
  "calculateSpread price1 price2 = jsmul (jsdiv (jssub price1 price2) price2) (Fin False 100)"

section \<open>Fee and gas helpers\<close>

definition getArbTradeSizeUSDC :: "jsnum \<Rightarrow> jsnum \<Rightarrow> jsnum" where
  "getArbTradeSizeUSDC overallBudget budgetPct = jsmul overallBudget (jsdiv budgetPct (Fin False 100))"

text \<open>
  A cost model is an object with \<open>gasFeeUSDC\<close> and either \<open>feeBps\<close> or \<open>fixedFeeUSDC\<close>;
  the property that is absent reads as \<open>undefined\<close>, here \<open>None\<close>.
\<close>

record cost_model =
  feeBps :: "jsnum option"
  fixedFeeUSDC :: "jsnum option"
  gasFeeUSDC :: jsnum

text \<open>An \<open>undefined\<close> operand of an arithmetic operator converts to NaN.\<close>

definition to_number :: "jsnum option \<Rightarrow> jsnum" where
  "to_number v = (case v of None \<Rightarrow> NaN | Some x \<Rightarrow> x)"

definition getDexCostModel :: "config \<Rightarrow> string \<Rightarrow> js_error + cost_model" where
  "getDexCostModel cfg dexName =
     (if dexName = ''Uniswap'' then
        Inr \<lparr>feeBps = Some (Fin False 0), fixedFeeUSDC = None,
             gasFeeUSDC = uniswapGasFeeUSDC (costs cfg)\<rparr>
      else if dexName = ''Aerodrome'' then
        Inr \<lparr>feeBps = Some (aerodromeFeeBps (costs cfg)), fixedFeeUSDC = None,
             gasFeeUSDC = aerodromeGasFeeUSDC (costs cfg)\<rparr>
      else if dexName = ''PancakeSwap'' then
        Inr \<lparr>feeBps = None, fixedFeeUSDC = Some (pancakeFixedFeeUSDC (costs cfg)),
             gasFeeUSDC = pancakeGasFeeUSDC (costs cfg)\<rparr>
      else Inl (Error (''Unknown DEX: '' @ dexName)))"

definition totalGasCostForDirection :: "config \<Rightarrow> string \<Rightarrow> string \<Rightarrow> js_error + jsnum" where
  "totalGasCostForDirection cfg buy sell =
     bindE (getDexCostModel cfg buy) (\<lambda>bm.
     bindE (getDexCostModel cfg sell) (\<lambda>sm.
       Inr (jsadd (gasFeeUSDC bm) (gasFeeUSDC sm))))"

section \<open>Arbitrage simulation\<close>

record arb_details =
  currentBudgetUSDC :: jsnum
  tradeSizeUSDC :: jsnum
  tradeSizeCbBTC :: jsnum
  buyPrice :: jsnum
  sellPrice :: jsnum
  usdcSpentBeforeFee :: jsnum
  usdcSpentAfterFee :: jsnum
  usdcReceivedBeforeFee :: jsnum
  usdcReceivedAfterFee :: jsnum
  buyDexName :: string
  sellDexName :: string
  buyModel :: cost_model
  sellModel :: cost_model
  buyTradeFeesUSDC :: jsnum
  sellTradeFeesUSDC :: jsnum
  totalGasCostUSDC :: jsnum

record arb_result =
  isProfitable :: bool
  netProfitUSDC :: jsnum
  netProfitPct :: jsnum
  direction :: string
  buyDex :: string
  sellDex :: string
  details :: arb_details

definition calculateArbDirection ::
  "config \<Rightarrow> string \<Rightarrow> string \<Rightarrow> jsnum \<Rightarrow> jsnum \<Rightarrow> jsnum \<Rightarrow> jsnum \<Rightarrow> jsnum \<Rightarrow> js_error + arb_result" where
  "calculateArbDirection cfg buy sell bPrice sPrice sizeCbBTC sizeUSDC budget =
     bindE (getDexCostModel cfg buy) (\<lambda>bm.
     bindE (getDexCostModel cfg sell) (\<lambda>sm.
       let spentBefore = jsmul sizeCbBTC bPrice;
           buyFees = (case fixedFeeUSDC bm of
                        Some f \<Rightarrow> f
                      | None \<Rightarrow> jsmul spentBefore (jsdiv (to_number (feeBps bm)) (Fin False 10000)));
           spentAfter = jsadd spentBefore buyFees;
           receivedBefore = jsmul sizeCbBTC sPrice;
           sellFees = (case fixedFeeUSDC sm of
                         Some f \<Rightarrow> f
                       | None \<Rightarrow> jsmul receivedBefore (jsdiv (to_number (feeBps sm)) (Fin False 10000)));
           receivedAfter = jssub receivedBefore sellFees
       in bindE (totalGasCostForDirection cfg buy sell) (\<lambda>totalGas.
            let netUSDC = jssub receivedAfter totalGas;
                netProfit = jssub netUSDC spentAfter;
                netPct = jsmul (jsdiv netProfit spentAfter) (Fin False 100)
            in Inr \<lparr>isProfitable = jsgt netProfit (Fin False 0),
                    netProfitUSDC = netProfit,
                    netProfitPct = netPct,
                    direction = ''Buy on '' @ buy @ '', Sell on '' @ sell,
                    buyDex = buy,
                    sellDex = sell,
                    details = \<lparr>currentBudgetUSDC = budget,
                                tradeSizeUSDC = sizeUSDC,
                                tradeSizeCbBTC = sizeCbBTC,
                                buyPrice = bPrice,
                                sellPrice = sPrice,
                                usdcSpentBeforeFee = spentBefore,
                                usdcSpentAfterFee = spentAfter,
                                usdcReceivedBeforeFee = receivedBefore,
                                usdcReceivedAfterFee = receivedAfter,
                                buyDexName = buy,
                                sellDexName = sell,
                                buyModel = bm,
                                sellModel = sm,
                                buyTradeFeesUSDC = buyFees,
                                sellTradeFeesUSDC = sellFees,
                                totalGasCostUSDC = totalGas\<rparr>\<rparr>)))"

definition simulateArbitrageForPair ::
  "config \<Rightarrow> string \<Rightarrow> jsnum \<Rightarrow> string \<Rightarrow> jsnum \<Rightarrow> jsnum \<Rightarrow> jsnum \<Rightarrow> js_error + arb_result" where
  "simulateArbitrageForPair cfg dex1Name dex1Price dex2Name dex2Price budget budgetPct =
     (let sizeUSDC = getArbTradeSizeUSDC budget budgetPct;
          tradeSizeCbBTC_A = jsdiv sizeUSDC dex1Price
      in bindE (calculateArbDirection cfg dex1Name dex2Name dex1Price dex2Price
                  tradeSizeCbBTC_A sizeUSDC budget) (\<lambda>directionA.
         let tradeSizeCbBTC_B = jsdiv sizeUSDC dex2Price
         in bindE (calculateArbDirection cfg dex2Name dex1Name dex2Price dex1Price
                     tradeSizeCbBTC_B sizeUSDC budget) (\<lambda>directionB.
              Inr (if jsgt (netProfitUSDC directionA) (netProfitUSDC directionB)
                   then directionA else directionB))))"

section \<open>The monitoring loop\<close>

text \<open>
  The variables of \<open>monitorPool\<close> that its event handlers share: the last price of each
  venue, the token order of each pool, the budget and the percentage of it per trade.
\<close>

record monitor_state =
  lastUniswapPrice :: jsnum
  lastAerodromePrice :: jsnum
  lastPancakePrice :: jsnum
  uniswapIsInverted :: bool
  aerodromeIsInverted :: bool
  pancakeIsInverted :: bool
  overallBudgetUSDC :: jsnum
  budgetPercent :: jsnum

record spread_entry =
  dex1 :: string
  dex2 :: string
  spread :: jsnum
  price1 :: jsnum
  price2 :: jsnum

definition spreads :: "monitor_state \<Rightarrow> spread_entry list" where
  "spreads st =
     (let spreadUniAero = calculateSpread (lastAerodromePrice st) (lastUniswapPrice st);
          spreadUniPancake = calculateSpread (lastPancakePrice st) (lastUniswapPrice st);
          spreadAeroPancake = calculateSpread (lastPancakePrice st) (lastAerodromePrice st)
      in [\<lparr>dex1 = ''Uniswap'', dex2 = ''Aerodrome'', spread = jsabs spreadUniAero,
            price1 = lastUniswapPrice st, price2 = lastAerodromePrice st\<rparr>,
          \<lparr>dex1 = ''Uniswap'', dex2 = ''PancakeSwap'', spread = jsabs spreadUniPancake,
            price1 = lastUniswapPrice st, price2 = lastPancakePrice st\<rparr>,
          \<lparr>dex1 = ''Aerodrome'', dex2 = ''PancakeSwap'', spread = jsabs spreadAeroPancake,
            price1 = lastAerodromePrice st, price2 = lastPancakePrice st\<rparr>])"

text \<open>\<open>Array.prototype.reduce\<close> without an initial value: a TypeError on the empty array.\<close>

fun reduce :: "('a \<Rightarrow> 'a \<Rightarrow> 'a) \<Rightarrow> 'a list \<Rightarrow> js_error + 'a" where
  "reduce f [] = Inl TypeError"
| "reduce f (x # xs) = Inr (foldl f x xs)"

definition pickMax :: "spread_entry \<Rightarrow> spread_entry \<Rightarrow> spread_entry" where
  "pickMax mx cur = (if jsgt (spread cur) (spread mx) then cur else mx)"

definition maxSpreadPair :: "monitor_state \<Rightarrow> js_error + spread_entry" where
  "maxSpreadPair st = reduce pickMax (spreads st)"

text \<open>
  The simulation of one pair followed by the compounding of the budget. A function that
  throws leaves the state as it was when the exception was raised: the result is the error,
  if any, and the state at exit.
\<close>

definition simulateAndCompound ::
  "config \<Rightarrow> monitor_state \<Rightarrow> spread_entry \<Rightarrow> js_error option \<times> monitor_state" where
  "simulateAndCompound cfg st p =
     (case simulateArbitrageForPair cfg (dex1 p) (price1 p) (dex2 p) (price2 p)
             (overallBudgetUSDC st) (budgetPercent st) of
        Inl e \<Rightarrow> (Some e, st)
      | Inr arbResult \<Rightarrow>
          (None,
           if isProfitable arbResult \<and> jsgt (netProfitUSDC arbResult) (Fin False 0)
           then st\<lparr>overallBudgetUSDC := jsadd (overallBudgetUSDC st) (netProfitUSDC arbResult)\<rparr>
           else st))"

definition findAndSimulateBestSpread :: "config \<Rightarrow> monitor_state \<Rightarrow> js_error option \<times> monitor_state" where
  "findAndSimulateBestSpread cfg st =
     (case maxSpreadPair st of
        Inl e \<Rightarrow> (Some e, st)
      | Inr p \<Rightarrow> simulateAndCompound cfg st p)"

text \<open>
  The three Swap handlers of the three-venue monitor, which compute the price from the
  \<open>sqrtPriceX96\<close> argument of the event. Each runs inside \<open>try\<close>/\<open>catch\<close>: an exception is
  logged and the handler returns; the result is the error that was logged, if any, and
  the state. Console output is left out throughout.
\<close>

definition onUniswapSwap :: "config \<Rightarrow> monitor_state \<Rightarrow> jsval \<Rightarrow> js_error option \<times> monitor_state" where
  "onUniswapSwap cfg st sqrtPriceX96 =
     (case calculatePrice cfg sqrtPriceX96 (uniswapIsInverted st) of
        Inl e \<Rightarrow> (Some e, st)
      | Inr newPrice \<Rightarrow>
          if jsgt (jsabs (jssub newPrice (lastUniswapPrice st))) (priceChange cfg)
          then findAndSimulateBestSpread cfg (st\<lparr>lastUniswapPrice := newPrice\<rparr>)
          else (None, st))"

definition onAerodromeSwap :: "config \<Rightarrow> monitor_state \<Rightarrow> jsval \<Rightarrow> js_error option \<times> monitor_state" where
  "onAerodromeSwap cfg st sqrtPriceX96 =
     (case calculateAerodromePrice cfg sqrtPriceX96 (aerodromeIsInverted st) of
        Inl e \<Rightarrow> (Some e, st)
      | Inr newPrice \<Rightarrow>
          if jsgt (jsabs (jssub newPrice (lastAerodromePrice st))) (priceChange cfg)
          then findAndSimulateBestSpread cfg (st\<lparr>lastAerodromePrice := newPrice\<rparr>)
          else (None, st))"

definition onPancakeSwap :: "config \<Rightarrow> monitor_state \<Rightarrow> jsval \<Rightarrow> js_error option \<times> monitor_state" where
  "onPancakeSwap cfg st sqrtPriceX96 =
     (case calculatePrice cfg sqrtPriceX96 (pancakeIsInverted st) of
        Inl e \<Rightarrow> (Some e, st)
      | Inr newPrice \<Rightarrow>
          if jsgt (jsabs (jssub newPrice (lastPancakePrice st))) (priceChange cfg)
          then findAndSimulateBestSpread cfg (st\<lparr>lastPancakePrice := newPrice\<rparr>)
          else (None, st))"

datatype swap_event = UniswapSwap jsval | AerodromeSwap jsval | PancakeSwap jsval

fun onSwap :: "config \<Rightarrow> monitor_state \<Rightarrow> swap_event \<Rightarrow> js_error option \<times> monitor_state" where
  "onSwap cfg st (UniswapSwap v) = onUniswapSwap cfg st v"
| "onSwap cfg st (AerodromeSwap v) = onAerodromeSwap cfg st v"
| "onSwap cfg st (PancakeSwap v) = onPancakeSwap cfg st v"

section \<open>The specification's formulas\<close>

text \<open>
  The price derivation in the specification's words: \<open>numerator = S * S * 10^quoteDecimals\<close>,
  \<open>denominator = SCALE * SCALE * 10^baseDecimals\<close> with \<open>SCALE = 2^96\<close>, the ratio is the
  floating-point division of the two big integers, and an inverted venue returns
  \<open>1 / ratio\<close>.
\<close>

definition spec_ratio :: "int \<Rightarrow> nat \<Rightarrow> nat \<Rightarrow> jsnum" where
  "spec_ratio S baseDecimals quoteDecimals =
     jsdiv (Number_of_bigint (S * S * 10 ^ quoteDecimals))
           (Number_of_bigint (2 ^ 96 * 2 ^ 96 * 10 ^ baseDecimals))"

definition spec_derivePrice :: "int \<Rightarrow> bool \<Rightarrow> nat \<Rightarrow> nat \<Rightarrow> jsnum" where
  "spec_derivePrice S isInverted baseDecimals quoteDecimals =
     (if isInverted then jsdiv (Fin False 1) (spec_ratio S baseDecimals quoteDecimals)
      else spec_ratio S baseDecimals quoteDecimals)"

text \<open>
  The cost model of the specification is one of two shapes, and each leg applies it:
  a proportional venue charges \<open>feeBps/10000\<close> of the amount, a fixed-fee venue its flat fee;
  the fee is added to the spend of the buy leg and subtracted from the proceeds of the
  sell leg.
\<close>

datatype CostModel = Proportional jsnum jsnum | FixedFee jsnum jsnum

fun gasFeeQuote :: "CostModel \<Rightarrow> jsnum" where
  "gasFeeQuote (Proportional bps g) = g"
| "gasFeeQuote (FixedFee f g) = g"

fun spec_fee :: "CostModel \<Rightarrow> jsnum \<Rightarrow> jsnum" where
  "spec_fee (Proportional bps g) amount = jsmul amount (jsdiv bps (Fin False 10000))"
| "spec_fee (FixedFee f g) amount = f"

definition spec_spentAfterFee :: "CostModel \<Rightarrow> jsnum \<Rightarrow> jsnum" where
  "spec_spentAfterFee cm spentBeforeFee = jsadd spentBeforeFee (spec_fee cm spentBeforeFee)"

definition spec_receivedAfterFee :: "CostModel \<Rightarrow> jsnum \<Rightarrow> jsnum" where
  "spec_receivedAfterFee cm receivedBeforeFee = jssub receivedBeforeFee (spec_fee cm receivedBeforeFee)"

text \<open>The shape of a cost model object of the program.\<close>

definition shape_of :: "cost_model \<Rightarrow> CostModel" where
  "shape_of cm = (case fixedFeeUSDC cm of
                    Some f \<Rightarrow> FixedFee f (gasFeeUSDC cm)
                  | None \<Rightarrow> Proportional (to_number (feeBps cm)) (gasFeeUSDC cm))"

definition registered :: "string set" where
  "registered = {''Uniswap'', ''Aerodrome'', ''PancakeSwap''}"

section \<open>An example configuration\<close>

text \<open>
  A decimal literal or a parsed decimal string denotes the nearest binary64 value.
  The example configuration has the defaults of the configuration module (gas fees of
  0.004 and 0.005 USDC, an Aerodrome fee of 1 basis point, a price change threshold of
  0.01), the decimals of cbBTC and USDC, and a PancakeSwap fee of 0.25 USDC.
\<close>

definition js_literal :: "rat \<Rightarrow> jsnum" where
  "js_literal q = mk (q < 0) \<bar>q\<bar>"

definition example_costs :: costs_config where
  "example_costs = \<lparr>uniswapGasFeeUSDC = js_literal (4 / 1000),
                     aerodromeGasFeeUSDC = js_literal (5 / 1000),
                     aerodromeFeeBps = js_literal 1,
                     pancakeFixedFeeUSDC = js_literal (25 / 100),
                     pancakeGasFeeUSDC = js_literal (4 / 1000)\<rparr>"

definition example_config :: config where
  "example_config = \<lparr>cbBTC_decimals = 8, USDC_decimals = 6,
                      priceChange = js_literal (1 / 100), costs = example_costs\<rparr>"

definition example_state :: monitor_state where
  "example_state = \<lparr>lastUniswapPrice = js_literal 90000,
                     lastAerodromePrice = js_literal 89900,
                     lastPancakePrice = js_literal 90200,
                     uniswapIsInverted = True,
                     aerodromeIsInverted = True,
                     pancakeIsInverted = True,
                     overallBudgetUSDC = js_literal 10000,
                     budgetPercent = js_literal 5\<rparr>"

section \<open>Auxiliary notions for the properties\<close>

text \<open>
  The specification's \<open>derivePrice(S, isInverted, baseDecimals, quoteDecimals)\<close> as the
  program provides it: \<open>calculatePrice\<close> under a configuration with these decimals.
\<close>

definition derivePrice :: "config \<Rightarrow> int \<Rightarrow> bool \<Rightarrow> int \<Rightarrow> int \<Rightarrow> js_error + jsnum" where
  "derivePrice cfg S isInverted baseDecimals quoteDecimals =
     calculatePrice (cfg\<lparr>cbBTC_decimals := baseDecimals, USDC_decimals := quoteDecimals\<rparr>)
       (VBigInt S) isInverted"

text \<open>The values that are not negative: \<open>+0\<close>, the positive numbers and \<open>+Infinity\<close>.\<close>

fun nonneg_num :: "jsnum \<Rightarrow> bool" where
  "nonneg_num (Fin s m) = (\<not> s \<and> 0 \<le> m)"
| "nonneg_num (Inf s) = (\<not> s)"
| "nonneg_num NaN = False"

text \<open>A budget is well formed when it is a binary64 value other than NaN and \<open>-Infinity\<close>.\<close>

definition budget_ok :: "jsnum \<Rightarrow> bool" where
  "budget_ok b = (is_double b \<and> b \<noteq> NaN \<and> b \<noteq> Inf True)"

text \<open>The state after a sequence of Swap events, handled one after the other.\<close>

definition run :: "config \<Rightarrow> monitor_state \<Rightarrow> swap_event list \<Rightarrow> monitor_state" where
  "run cfg st evs = foldl (\<lambda>s ev. snd (onSwap cfg s ev)) st evs"

section \<open>Properties of the rounding\<close>

lemma p2_pos [simp]: "0 < (2::rat) powi e"
  by simp

lemma p2_add: "(2::rat) powi (a + b) = 2 powi a * 2 powi b"
  by (simp add: power_int_add)

lemma p2_mono: "a \<le> b \<Longrightarrow> (2::rat) powi a \<le> 2 powi b"
  by (rule power_int_increasing) auto

lemma p2_strict_mono: "a < b \<Longrightarrow> (2::rat) powi a < 2 powi b"
  by (rule power_int_strict_increasing) auto

lemma p2_less_cancel: "(2::rat) powi a < 2 powi b \<Longrightarrow> a < b"
  using p2_mono [of b a] by (cases "a < b") auto

lemma p2_nat: "0 \<le> k \<Longrightarrow> (2::rat) powi k = of_int (2 ^ nat k)"
  by (simp add: power_int_nonneg_exp)

lemma ilog2_ge1:
  assumes "1 \<le> x"
  shows "2 powi (ilog2 x) \<le> x" and "x < 2 powi (ilog2 x + 1)"
proof -
  define n where "n = \<lfloor>x\<rfloor>"
  have n1: "1 \<le> n" using assms by (simp add: n_def le_floor_iff)
  have bl: "1 \<le> bitlen n" using n1 by (simp add: bitlen_alt_def)
  have il: "ilog2 x = bitlen n - 1" using assms by (simp add: ilog2_def n_def)
  from bitlen_bounds [of n] n1
  have lo: "2 ^ nat (bitlen n - 1) \<le> n" and hi: "n < 2 ^ nat (bitlen n)" by auto
  have "(2::rat) powi (ilog2 x) = of_int (2 ^ nat (bitlen n - 1))"
    using bl by (simp add: il p2_nat)
  also have "\<dots> \<le> of_int n" using lo by (simp only: of_int_le_iff)
  also have "\<dots> \<le> x" by (simp add: n_def)
  finally show "2 powi (ilog2 x) \<le> x" .
  have "x < of_int (n + 1)" using floor_correct [of x] by (simp add: n_def)
  also have "\<dots> \<le> of_int (2 ^ nat (bitlen n))" using hi by (simp only: of_int_le_iff)
  also have "\<dots> = (2::rat) powi (ilog2 x + 1)" using bl by (simp add: il p2_nat)
  finally show "x < 2 powi (ilog2 x + 1)" .
qed

lemma ilog2_lt1:
  assumes "0 < x" and "x < 1"
  shows "2 powi (ilog2 x) \<le> x" and "x < 2 powi (ilog2 x + 1)"
proof -
  define y where "y = 1 / x"
  define m where "m = \<lceil>y\<rceil> - 1"
  define k where "k = bitlen m"
  have y1: "1 < y" using assms by (simp add: y_def)
  have m1: "1 \<le> m" using y1 by (simp add: m_def less_ceiling_iff)
  have k1: "1 \<le> k" using m1 by (simp add: k_def bitlen_alt_def)
  have il: "ilog2 x = - k" using assms by (simp add: ilog2_def k_def m_def y_def)
  from bitlen_bounds [of m] m1
  have lo: "2 ^ nat (k - 1) \<le> m" and hi: "m < 2 ^ nat k" by (auto simp: k_def)
  have my: "of_int m < y" using ceiling_correct [of y] by (simp add: m_def)
  have ym: "y \<le> of_int (m + 1)" by (simp add: m_def)
  have "y \<le> of_int (2 ^ nat k)"
  proof -
    have "of_int (m + 1) \<le> (of_int (2 ^ nat k) :: rat)" using hi by (simp only: of_int_le_iff)
    with ym show ?thesis by linarith
  qed
  then have "1 / x \<le> 2 powi k" using k1 by (simp add: p2_nat y_def)
  then have "1 \<le> 2 powi k * x" using assms by (simp add: field_simps)
  then have "2 powi (- k) * 1 \<le> 2 powi (- k) * (2 powi k * x)"
    by (intro mult_left_mono) auto
  then show "2 powi (ilog2 x) \<le> x"
    by (simp add: il flip: mult.assoc p2_add)
  have "of_int (2 ^ nat (k - 1)) < y"
  proof -
    have "(of_int (2 ^ nat (k - 1)) :: rat) \<le> of_int m" using lo by (simp only: of_int_le_iff)
    with my show ?thesis by linarith
  qed
  then have "2 powi (k - 1) < 1 / x" using k1 by (simp add: p2_nat y_def)
  then have "2 powi (k - 1) * x < 1" using assms by (simp add: field_simps)
  then have "2 powi (1 - k) * (2 powi (k - 1) * x) < 2 powi (1 - k) * 1"
    by (intro mult_strict_left_mono) auto
  then show "x < 2 powi (ilog2 x + 1)"
    by (simp add: il flip: mult.assoc p2_add)
qed

lemma ilog2_bounds:
  assumes "0 < x"
  shows "2 powi (ilog2 x) \<le> x" and "x < 2 powi (ilog2 x + 1)"
  using assms ilog2_ge1 [of x] ilog2_lt1 [of x] by (cases "1 \<le> x"; simp)+

lemma ilog2_unique:
  assumes "2 powi e \<le> x" and "x < 2 powi (e + 1)"
  shows "ilog2 x = e"
proof -
  have x0: "0 < x" using assms(1) p2_pos [of e] by linarith
  have "2 powi e < (2::rat) powi (ilog2 x + 1)" using assms(1) ilog2_bounds(2) [OF x0] by linarith
  then have a: "e < ilog2 x + 1" by (rule p2_less_cancel)
  have "(2::rat) powi (ilog2 x) < 2 powi (e + 1)" using assms(2) ilog2_bounds(1) [OF x0] by linarith
  then have b: "ilog2 x < e + 1" by (rule p2_less_cancel)
  from a b show ?thesis by linarith
qed

lemma ilog2_mono:
  assumes "0 < x" and "x \<le> y"
  shows "ilog2 x \<le> ilog2 y"
proof -
  have y0: "0 < y" using assms by linarith
  have "(2::rat) powi (ilog2 x) < 2 powi (ilog2 y + 1)"
    using ilog2_bounds(1) [OF assms(1)] ilog2_bounds(2) [OF y0] assms(2) by linarith
  then have "ilog2 x < ilog2 y + 1" by (rule p2_less_cancel)
  then show ?thesis by linarith
qed

lemma rhe_of_int [simp]: "rhe (of_int n) = n"
  by (simp add: rhe_def)

lemma rhe_mono:
  assumes "x \<le> y"
  shows "rhe x \<le> rhe y"
proof (cases "\<lfloor>x\<rfloor> = \<lfloor>y\<rfloor>")
  case True
  then show ?thesis using assms by (auto simp: rhe_def Let_def)
next
  case False
  then have "\<lfloor>x\<rfloor> < \<lfloor>y\<rfloor>" using floor_mono [OF assms] by linarith
  moreover have "rhe x \<le> \<lfloor>x\<rfloor> + 1" by (auto simp: rhe_def Let_def)
  moreover have "\<lfloor>y\<rfloor> \<le> rhe y" by (auto simp: rhe_def Let_def)
  ultimately show ?thesis by linarith
qed


lemma rhe_nonneg: "0 \<le> x \<Longrightarrow> 0 \<le> rhe x"
  using rhe_mono [of 0 x] rhe_of_int [of 0] by simp

lemma rnd_nonneg: "0 \<le> x \<Longrightarrow> 0 \<le> rnd x"
  by (simp add: rnd_def rhe_nonneg)

lemma ulp_exp_mono: "0 < x \<Longrightarrow> x \<le> y \<Longrightarrow> ulp_exp x \<le> ulp_exp y"
  using ilog2_mono [of x y] by (simp add: ulp_exp_def)

text \<open>A positive magnitude lies below \<open>2 ^ 53\<close> units in the last place.\<close>

lemma scaled_upper:
  assumes "0 < x"
  shows "x / 2 powi ulp_exp x < 2 ^ 53"
proof -
  have "x < 2 powi (ilog2 x + 1)" by (rule ilog2_bounds(2) [OF assms])
  also have "\<dots> \<le> 2 powi (ulp_exp x + 53)" by (rule p2_mono) (simp add: ulp_exp_def)
  also have "\<dots> = 2 powi ulp_exp x * 2 ^ 53" by (simp add: p2_add)
  finally show ?thesis by (simp add: field_simps)
qed

lemma rnd_upper:
  assumes "0 < x"
  shows "rnd x \<le> 2 powi (ulp_exp x + 53)"
proof -
  have "rhe (x / 2 powi ulp_exp x) \<le> rhe (of_int (2 ^ 53))"
    by (rule rhe_mono) (use scaled_upper [OF assms] in simp)
  then have "rhe (x / 2 powi ulp_exp x) \<le> 2 ^ 53" by (simp only: rhe_of_int)
  then have "(of_int (rhe (x / 2 powi ulp_exp x)) :: rat) \<le> of_int (2 ^ 53)"
    by (simp only: of_int_le_iff)
  then have "(of_int (rhe (x / 2 powi ulp_exp x)) :: rat) * 2 powi ulp_exp x \<le> 2 ^ 53 * 2 powi ulp_exp x"
    by (intro mult_right_mono) auto
  then show ?thesis using assms by (simp add: rnd_def p2_add mult.commute)
qed

text \<open>A normal magnitude is not rounded below the power of two under it.\<close>

lemma rnd_lower:
  assumes "0 < x" and "- 1022 \<le> ilog2 x"
  shows "2 powi (ilog2 x) \<le> rnd x"
proof -
  have ue: "ulp_exp x = ilog2 x - 52" using assms(2) by (simp add: ulp_exp_def)
  have pe: "(2::rat) powi (ilog2 x) = of_int (2 ^ 52) * 2 powi ulp_exp x"
    using p2_add [of 52 "ilog2 x - 52"] by (simp add: ue)
  have "(of_int (2 ^ 52) :: rat) * 2 powi ulp_exp x \<le> x"
    using ilog2_bounds(1) [OF assms(1)] pe by simp
  then have "(of_int (2 ^ 52) :: rat) \<le> x / 2 powi ulp_exp x" by (simp add: field_simps)
  then have "rhe (of_int (2 ^ 52)) \<le> rhe (x / 2 powi ulp_exp x)" by (rule rhe_mono)
  then have "2 ^ 52 \<le> rhe (x / 2 powi ulp_exp x)" by (simp only: rhe_of_int)
  then have "(of_int (2 ^ 52) :: rat) \<le> of_int (rhe (x / 2 powi ulp_exp x))"
    by (simp only: of_int_le_iff)
  then have "(of_int (2 ^ 52) :: rat) * 2 powi ulp_exp x
      \<le> of_int (rhe (x / 2 powi ulp_exp x)) * 2 powi ulp_exp x"
    by (intro mult_right_mono) auto
  then show ?thesis using assms(1) pe by (simp add: rnd_def)
qed

lemma rnd_mono:
  assumes "0 \<le> x" and "x \<le> y"
  shows "rnd x \<le> rnd y"
proof (cases "x = 0")
  case True
  then show ?thesis using assms rnd_nonneg [of y] by (simp add: rnd_def)
next
  case False
  then have x0: "0 < x" and y0: "0 < y" using assms by auto
  have le: "ulp_exp x \<le> ulp_exp y" by (rule ulp_exp_mono [OF x0 assms(2)])
  show ?thesis
  proof (cases "ulp_exp x = ulp_exp y")
    case True
    have "x / 2 powi ulp_exp y \<le> y / 2 powi ulp_exp y"
      using assms(2) by (simp add: divide_right_mono)
    then have "rhe (x / 2 powi ulp_exp y) \<le> rhe (y / 2 powi ulp_exp y)" by (rule rhe_mono)
    then have "(of_int (rhe (x / 2 powi ulp_exp y)) :: rat) \<le> of_int (rhe (y / 2 powi ulp_exp y))"
      by (simp only: of_int_le_iff)
    then have "(of_int (rhe (x / 2 powi ulp_exp y)) :: rat) * 2 powi ulp_exp y
        \<le> of_int (rhe (y / 2 powi ulp_exp y)) * 2 powi ulp_exp y"
      by (intro mult_right_mono) auto
    then show ?thesis using x0 y0 True by (simp add: rnd_def)
  next
    case False
    with le have lt: "ulp_exp x < ulp_exp y" by simp
    define e where "e = ulp_exp y + 52"
    have ey: "e = ilog2 y" "- 1022 \<le> ilog2 y" using lt by (auto simp: e_def ulp_exp_def)
    have "rnd x \<le> 2 powi (ulp_exp x + 53)" by (rule rnd_upper [OF x0])
    also have "\<dots> \<le> 2 powi e" by (rule p2_mono) (use lt in \<open>simp add: e_def\<close>)
    also have "\<dots> \<le> rnd y"
      unfolding ey(1) by (rule rnd_lower [OF y0 ey(2)])
    finally show ?thesis .
  qed
qed

lemma ilog2_p2 [simp]: "ilog2 (2 powi e) = e"
  by (rule ilog2_unique) (auto intro: p2_strict_mono)

text \<open>A multiple of the unit in the last place is not changed by rounding.\<close>

lemma rnd_exact:
  assumes "x = of_int n * 2 powi ulp_exp x"
  shows "rnd x = x"
proof -
  have "x / 2 powi ulp_exp x = of_int n" using assms by (simp add: field_simps)
  then show ?thesis using assms by (simp add: rnd_def)
qed

lemma bitlen_nonpos: "n \<le> 0 \<Longrightarrow> bitlen n = 0"
  by (simp add: bitlen_alt_def)

lemma ilog2_nonpos:
  assumes "x \<le> 0"
  shows "ilog2 x = 0"
proof -
  have "1 / x \<le> 0" using assms by (simp add: divide_le_0_iff)
  then have "\<lceil>1 / x\<rceil> \<le> 0" by (simp add: ceiling_le_iff)
  then have "bitlen (\<lceil>1 / x\<rceil> - 1) = 0" by (intro bitlen_nonpos) linarith
  then show ?thesis using assms by (simp add: ilog2_def)
qed

lemma rnd_0 [simp]: "rnd 0 = 0"
  by (simp add: rnd_def)

lemma mk_0 [simp]: "mk s 0 = Fin s 0"
  by (simp add: mk_def ilog2_nonpos)

lemma mk_cases:
  obtains (fin) "mk s x = Fin s (rnd x)" "ilog2 (rnd x) < 1024"
        | (inf) "mk s x = Inf s" "1024 \<le> ilog2 (rnd x)"
  by (cases "1024 \<le> ilog2 (rnd x)") (auto simp: mk_def Let_def)

lemma overflow_mono:
  assumes "0 \<le> x" and "x \<le> y" and "1024 \<le> ilog2 (rnd x)"
  shows "1024 \<le> ilog2 (rnd y)"
proof -
  have "rnd x \<noteq> 0" using assms(3) by (auto simp: ilog2_nonpos)
  then have "0 < rnd x" using rnd_nonneg [OF assms(1)] by linarith
  then have "ilog2 (rnd x) \<le> ilog2 (rnd y)"
    by (rule ilog2_mono) (rule rnd_mono [OF assms(1,2)])
  with assms(3) show ?thesis by linarith
qed

lemma mk_mono:
  assumes "0 \<le> x" and "x \<le> y"
  shows "jsle (mk False x) (mk False y)"
proof (cases "1024 \<le> ilog2 (rnd x)")
  case True
  then have "1024 \<le> ilog2 (rnd y)" by (rule overflow_mono [OF assms])
  with True show ?thesis by (simp add: mk_def jsle_def)
next
  case False
  then show ?thesis using rnd_mono [OF assms]
    by (auto simp: mk_def jsle_def Let_def sval_def)
qed

lemma Number_of_bigint_mono:
  assumes "0 \<le> m" and "m \<le> n"
  shows "jsle (Number_of_bigint m) (Number_of_bigint n)"
  using assms mk_mono [of "of_int m" "of_int n"] by (simp add: Number_of_bigint_def)

lemma nonneg_mk: "0 \<le> x \<Longrightarrow> nonneg_num (mk False x)"
  by (simp add: mk_def Let_def rnd_nonneg)

lemma jsdiv_mono:
  assumes "nonneg_num a" and "nonneg_num b" and "jsle a b" and "0 < d"
  shows "jsle (jsdiv a (Fin False d)) (jsdiv b (Fin False d))"
proof (cases a)
  case (Fin s m)
  note a = this
  show ?thesis
  proof (cases b)
    case (Fin t n)
    have st: "\<not> s" "\<not> t" "0 \<le> m" using assms(1,2) a Fin by auto
    then have "m \<le> n" using assms(3) a Fin by (auto simp: jsle_def sval_def)
    then have "jsle (mk False (m / d)) (mk False (n / d))"
      using assms(4) st by (intro mk_mono) (auto simp: divide_right_mono)
    then show ?thesis using a Fin assms(4) st by simp
  next
    case (Inf t)
    then have "\<not> t" using assms(2) by simp
    moreover have "\<not> s" using assms(1) a by simp
    ultimately show ?thesis using a Inf assms(4)
      by (cases rule: mk_cases [of False "m / d"]) (auto simp: jsle_def)
  next
    case NaN
    then show ?thesis using assms(2) by simp
  qed
next
  case (Inf s)
  then show ?thesis using assms by (cases b) (auto simp: jsle_def)
next
  case NaN
  then show ?thesis using assms by simp
qed

lemma rhe_upper:
  assumes "0 < x"
  shows "rhe (x / 2 powi ulp_exp x) \<le> 2 ^ 53"
proof -
  have "rhe (x / 2 powi ulp_exp x) \<le> rhe (of_int (2 ^ 53))"
    by (rule rhe_mono) (use scaled_upper [OF assms] in simp)
  then show ?thesis by (simp only: rhe_of_int)
qed

text \<open>A multiple of a unit that is not finer than its own unit in the last place is exact.\<close>

lemma rnd_exact_coarser:
  assumes "r = of_int n * 2 powi u" and "ulp_exp r \<le> u"
  shows "rnd r = r"
proof -
  define k where "k = nat (u - ulp_exp r)"
  have k: "int k = u - ulp_exp r" using assms(2) by (simp add: k_def)
  have "(2::rat) powi u = 2 powi (int k) * 2 powi ulp_exp r" by (simp add: k flip: p2_add)
  then have "r = of_int (n * 2 ^ k) * 2 powi ulp_exp r" using assms(1) by simp
  then show ?thesis by (rule rnd_exact)
qed

lemma rnd_idem:
  assumes "0 \<le> x"
  shows "rnd (rnd x) = rnd x"
proof (cases "rnd x = 0")
  case True
  then show ?thesis by simp
next
  case False
  then have x0: "0 < x" using assms by (cases "x = 0") auto
  define u where "u = ulp_exp x"
  define n where "n = rhe (x / 2 powi u)"
  have r: "rnd x = of_int n * 2 powi u" using x0 by (simp add: rnd_def n_def u_def)
  have r0: "0 < rnd x" using False rnd_nonneg [OF assms] by linarith
  have n53: "n \<le> 2 ^ 53" using rhe_upper [OF x0] by (simp add: n_def u_def)
  have ulow: "- 1074 \<le> u" by (simp add: u_def ulp_exp_def)
  show ?thesis
  proof (cases "n = 2 ^ 53")
    case True
    have "rnd x = 2 powi (u + 53)" using r True by (simp add: p2_add mult.commute)
    then have "ilog2 (rnd x) = u + 53" by simp
    then have ue: "ulp_exp (rnd x) = u + 1" using ulow by (simp add: ulp_exp_def)
    have "rnd x = of_int (2 ^ 52) * 2 powi (u + 1)" using r True by (simp add: p2_add)
    then show ?thesis by (rule rnd_exact_coarser) (simp add: ue)
  next
    case False
    with n53 have "n < 2 ^ 53" by simp
    then have "(of_int n :: rat) < of_int (2 ^ 53)" by (simp only: of_int_less_iff)
    then have "of_int n * 2 powi u < (of_int (2 ^ 53) :: rat) * 2 powi u"
      by (intro mult_strict_right_mono) auto
    then have "rnd x < 2 powi (u + 53)" using r by (simp add: p2_add mult.commute)
    then have "2 powi (ilog2 (rnd x)) < (2::rat) powi (u + 53)"
      using ilog2_bounds(1) [OF r0] by linarith
    then have "ilog2 (rnd x) < u + 53" by (rule p2_less_cancel)
    then have "ulp_exp (rnd x) \<le> u" using ulow by (simp add: ulp_exp_def)
    with r show ?thesis by (rule rnd_exact_coarser)
  qed
qed

lemma is_double_mk: "0 \<le> x \<Longrightarrow> is_double (mk s x)"
  by (simp add: mk_def Let_def rnd_nonneg rnd_idem)

subsection \<open>Evaluation of the rounding on numerals\<close>

lemma floor_rat_numeral_div: "\<lfloor>(numeral a :: rat) / numeral b\<rfloor> = numeral a div numeral b"
  using floor_divide_of_int_eq [of "numeral a" "numeral b", where ?'a = rat] by simp

lemma ceiling_rat_numeral_div: "\<lceil>(numeral a :: rat) / numeral b\<rceil> = - ((- numeral a) div numeral b)"
  using floor_divide_of_int_eq [of "- numeral a" "numeral b", where ?'a = rat] by (simp add: ceiling_def)

lemma bitlen_numeral_simps:
  "bitlen 1 = 1"
  "bitlen (numeral (Num.Bit0 n)) = bitlen (numeral n) + 1"
  "bitlen (numeral (Num.Bit1 n)) = bitlen (numeral n) + 1"
  "bitlen (numeral Num.One) = 1"
  "bitlen (- numeral n) = 0"
  "bitlen (- 1) = 0"
  by (subst compute_bitlen; simp)+

lemmas js_eval = rnd_def ulp_exp_def ilog2_def bitlen_numeral_simps rhe_def Let_def mk_def
  Number_of_bigint_def sval_def js_literal_def floor_rat_numeral_div ceiling_rat_numeral_div

lemma example_costs_eval:
  "example_costs = \<lparr>uniswapGasFeeUSDC = Fin False (1152921504606847 / 2 ^ 58),
                     aerodromeGasFeeUSDC = Fin False (5764607523034235 / 2 ^ 60),
                     aerodromeFeeBps = Fin False 1,
                     pancakeFixedFeeUSDC = Fin False (1 / 4),
                     pancakeGasFeeUSDC = Fin False (1152921504606847 / 2 ^ 58)\<rparr>"
  by (simp add: example_costs_def js_eval)

section \<open>Cost models and directions\<close>

lemma getDexCostModel_unknown:
  "d \<notin> registered \<Longrightarrow> getDexCostModel cfg d = Inl (Error (''Unknown DEX: '' @ d))"
  by (simp add: registered_def getDexCostModel_def)

lemma getDexCostModel_registered:
  "d \<in> registered \<Longrightarrow> \<exists>cm. getDexCostModel cfg d = Inr cm"
  by (auto simp: registered_def getDexCostModel_def)

lemma totalGas_Inr:
  "getDexCostModel cfg b = Inr bm \<Longrightarrow> getDexCostModel cfg s = Inr sm \<Longrightarrow>
   totalGasCostForDirection cfg b s = Inr (jsadd (gasFeeUSDC bm) (gasFeeUSDC sm))"
  by (simp add: totalGasCostForDirection_def bindE_def)

lemma calculateArbDirection_Inr:
  assumes "getDexCostModel cfg b = Inr bm" and "getDexCostModel cfg s = Inr sm"
  shows "\<exists>r. calculateArbDirection cfg b s bp sp tc tu bu = Inr r \<and> buyDex r = b \<and> sellDex r = s
    \<and> isProfitable r = jsgt (netProfitUSDC r) (Fin False 0)"
  using assms by (simp add: calculateArbDirection_def bindE_def totalGas_Inr Let_def)

lemma calculateArbDirection_unknown_buy:
  "b \<notin> registered \<Longrightarrow>
   calculateArbDirection cfg b s bp sp tc tu bu = Inl (Error (''Unknown DEX: '' @ b))"
  by (simp add: calculateArbDirection_def bindE_def getDexCostModel_unknown)

lemma calculateArbDirection_unknown_sell:
  "b \<in> registered \<Longrightarrow> s \<notin> registered \<Longrightarrow>
   calculateArbDirection cfg b s bp sp tc tu bu = Inl (Error (''Unknown DEX: '' @ s))"
  using getDexCostModel_registered [of b cfg]
  by (auto simp: calculateArbDirection_def bindE_def getDexCostModel_unknown)

lemma calculateArbDirection_profitable:
  "calculateArbDirection cfg b s bp sp tc tu bu = Inr r \<Longrightarrow>
   isProfitable r = jsgt (netProfitUSDC r) (Fin False 0)"
  by (auto simp: calculateArbDirection_def bindE_def Let_def split: sum.splits)

lemma simulate_profitable:
  assumes "simulateArbitrageForPair cfg d1 p1 d2 p2 b pct = Inr r"
  shows "isProfitable r = jsgt (netProfitUSDC r) (Fin False 0)"
  using assms calculateArbDirection_profitable
  by (auto simp: simulateArbitrageForPair_def bindE_def Let_def split: sum.splits if_splits)

lemma jslt_asym: "jslt a b \<Longrightarrow> \<not> jslt b a"
  by (cases a; cases b) auto

lemma jseq_not_lt: "jseq a b \<Longrightarrow> \<not> jslt a b \<and> \<not> jslt b a"
  by (cases a; cases b) auto

lemmas sim_eval = simulateArbitrageForPair_def calculateArbDirection_def getDexCostModel_def
  totalGasCostForDirection_def getArbTradeSizeUSDC_def bindE_def to_number_def jssub_def jsgt_def

section \<open>The simulation of one direction\<close>

text \<open>
  Claim C1. For two venues with registered cost models, \<open>calculateArbDirection\<close> succeeds
  and its result follows the specification's steps: the spend before the fee is the trade
  size times the buy price, and the buy venue's fee is added to it (\<open>feeBps/10000\<close> of the
  spend for a proportional venue, the flat fee for a fixed-fee venue); the proceeds are the
  trade size times the sell price, less the sell venue's fee; the gas is the sum of the two
  venues' gas fees; the net profit is the proceeds after the fee, less the gas, less the
  spend after the fee; the percentage is the net profit over the spend after the fee,
  times 100; and the direction is profitable exactly when the net profit is greater
  than zero.
\<close>

theorem calculateArbDirection_formulas:
  assumes "getDexCostModel cfg buy = Inr bm" and "getDexCostModel cfg sell = Inr sm"
  shows "\<exists>r. calculateArbDirection cfg buy sell bPrice sPrice sizeCbBTC sizeUSDC budget = Inr r
    \<and> usdcSpentBeforeFee (details r) = jsmul sizeCbBTC bPrice
    \<and> usdcSpentAfterFee (details r) = spec_spentAfterFee (shape_of bm) (jsmul sizeCbBTC bPrice)
    \<and> usdcReceivedBeforeFee (details r) = jsmul sizeCbBTC sPrice
    \<and> usdcReceivedAfterFee (details r) = spec_receivedAfterFee (shape_of sm) (jsmul sizeCbBTC sPrice)
    \<and> totalGasCostUSDC (details r) = jsadd (gasFeeQuote (shape_of bm)) (gasFeeQuote (shape_of sm))
    \<and> netProfitUSDC r =
        jssub (jssub (usdcReceivedAfterFee (details r)) (totalGasCostUSDC (details r)))
              (usdcSpentAfterFee (details r))
    \<and> netProfitPct r = jsmul (jsdiv (netProfitUSDC r) (usdcSpentAfterFee (details r))) (Fin False 100)
    \<and> isProfitable r = jsgt (netProfitUSDC r) (Fin False 0)"
  using assms
  by (simp add: calculateArbDirection_def bindE_def totalGas_Inr Let_def
      spec_spentAfterFee_def spec_receivedAfterFee_def shape_of_def split: option.splits)

text \<open>
  The theorem at a purchase of half a cbBTC on Aerodrome (proportional) sold on
  PancakeSwap (fixed fee), under the example configuration.
\<close>

theorem calculateArbDirection_formulas_witness:
  "getDexCostModel example_config ''Aerodrome''
     = Inr \<lparr>feeBps = Some (Fin False 1), fixedFeeUSDC = None,
            gasFeeUSDC = Fin False (5764607523034235 / 2 ^ 60)\<rparr>
   \<and> getDexCostModel example_config ''PancakeSwap''
     = Inr \<lparr>feeBps = None, fixedFeeUSDC = Some (Fin False (1 / 4)),
            gasFeeUSDC = Fin False (1152921504606847 / 2 ^ 58)\<rparr>
   \<and> (\<exists>r. calculateArbDirection example_config ''Aerodrome'' ''PancakeSwap''
            (Fin False 89900) (Fin False 90200) (Fin False (1 / 2)) (Fin False 44950) (Fin False 100000)
          = Inr r
      \<and> usdcSpentBeforeFee (details r) = jsmul (Fin False (1 / 2)) (Fin False 89900)
      \<and> usdcSpentAfterFee (details r)
          = jsadd (jsmul (Fin False (1 / 2)) (Fin False 89900))
              (jsmul (jsmul (Fin False (1 / 2)) (Fin False 89900)) (jsdiv (Fin False 1) (Fin False 10000)))
      \<and> usdcReceivedAfterFee (details r)
          = jssub (jsmul (Fin False (1 / 2)) (Fin False 90200)) (Fin False (1 / 4))
      \<and> isProfitable r = jsgt (netProfitUSDC r) (Fin False 0))"
proof -
  have a: "getDexCostModel example_config ''Aerodrome''
     = Inr \<lparr>feeBps = Some (Fin False 1), fixedFeeUSDC = None,
            gasFeeUSDC = Fin False (5764607523034235 / 2 ^ 60)\<rparr>"
    by (simp add: getDexCostModel_def example_config_def example_costs_eval)
  have p: "getDexCostModel example_config ''PancakeSwap''
     = Inr \<lparr>feeBps = None, fixedFeeUSDC = Some (Fin False (1 / 4)),
            gasFeeUSDC = Fin False (1152921504606847 / 2 ^ 58)\<rparr>"
    by (simp add: getDexCostModel_def example_config_def example_costs_eval)
  from calculateArbDirection_formulas [OF a p, of "Fin False 89900" "Fin False 90200"
      "Fin False (1 / 2)" "Fin False 44950" "Fin False 100000"]
  obtain r where "calculateArbDirection example_config ''Aerodrome'' ''PancakeSwap''
            (Fin False 89900) (Fin False 90200) (Fin False (1 / 2)) (Fin False 44950) (Fin False 100000)
          = Inr r"
      and "usdcSpentBeforeFee (details r) = jsmul (Fin False (1 / 2)) (Fin False 89900)"
      and "usdcSpentAfterFee (details r)
          = jsadd (jsmul (Fin False (1 / 2)) (Fin False 89900))
              (jsmul (jsmul (Fin False (1 / 2)) (Fin False 89900)) (jsdiv (Fin False 1) (Fin False 10000)))"
      and "usdcReceivedAfterFee (details r)
          = jssub (jsmul (Fin False (1 / 2)) (Fin False 90200)) (Fin False (1 / 4))"
      and "isProfitable r = jsgt (netProfitUSDC r) (Fin False 0)"
    by (auto simp: spec_spentAfterFee_def spec_receivedAfterFee_def shape_of_def to_number_def)
  then show ?thesis using a p by blast
qed

section \<open>The choice between the two directions\<close>

text \<open>
  Claim C5, as the program has it. For two registered venues both directions are
  simulated, the first buying on the first-named venue and the second buying on the
  second-named one, and \<open>simulateArbitrageForPair\<close> returns the first direction only when
  its net profit is strictly greater than that of the second: it returns the direction
  with the higher net profit, and when the two net profits are equal it returns the
  second-evaluated direction (buy on the second-named venue, sell on the first).
\<close>

theorem simulate_returns_B_unless_A_greater:
  assumes "d1 \<in> registered" and "d2 \<in> registered"
  shows "\<exists>A B.
      calculateArbDirection cfg d1 d2 p1 p2 (jsdiv (getArbTradeSizeUSDC b pct) p1)
        (getArbTradeSizeUSDC b pct) b = Inr A
    \<and> calculateArbDirection cfg d2 d1 p2 p1 (jsdiv (getArbTradeSizeUSDC b pct) p2)
        (getArbTradeSizeUSDC b pct) b = Inr B
    \<and> buyDex A = d1 \<and> sellDex A = d2 \<and> buyDex B = d2 \<and> sellDex B = d1
    \<and> simulateArbitrageForPair cfg d1 p1 d2 p2 b pct =
        Inr (if jsgt (netProfitUSDC A) (netProfitUSDC B) then A else B)
    \<and> (if jsgt (netProfitUSDC A) (netProfitUSDC B)
        then simulateArbitrageForPair cfg d1 p1 d2 p2 b pct = Inr A
        else simulateArbitrageForPair cfg d1 p1 d2 p2 b pct = Inr B)
    \<and> (if jsgt (netProfitUSDC B) (netProfitUSDC A) \<or> jseq (netProfitUSDC A) (netProfitUSDC B)
        then simulateArbitrageForPair cfg d1 p1 d2 p2 b pct = Inr B
        else True)"
proof -
  from assms obtain m1 m2 where m: "getDexCostModel cfg d1 = Inr m1" "getDexCostModel cfg d2 = Inr m2"
    using getDexCostModel_registered by blast
  obtain A where A: "calculateArbDirection cfg d1 d2 p1 p2 (jsdiv (getArbTradeSizeUSDC b pct) p1)
        (getArbTradeSizeUSDC b pct) b = Inr A" "buyDex A = d1" "sellDex A = d2"
    using calculateArbDirection_Inr [OF m(1) m(2)] by blast
  obtain B where B: "calculateArbDirection cfg d2 d1 p2 p1 (jsdiv (getArbTradeSizeUSDC b pct) p2)
        (getArbTradeSizeUSDC b pct) b = Inr B" "buyDex B = d2" "sellDex B = d1"
    using calculateArbDirection_Inr [OF m(2) m(1)] by blast
  have sim: "simulateArbitrageForPair cfg d1 p1 d2 p2 b pct =
        Inr (if jsgt (netProfitUSDC A) (netProfitUSDC B) then A else B)"
    by (simp add: simulateArbitrageForPair_def Let_def bindE_def A B)
  have "jsgt (netProfitUSDC B) (netProfitUSDC A) \<or> jseq (netProfitUSDC A) (netProfitUSDC B)
      \<Longrightarrow> \<not> jsgt (netProfitUSDC A) (netProfitUSDC B)"
    using jslt_asym jseq_not_lt by (auto simp: jsgt_def)
  with A B sim show ?thesis by (intro exI [of _ A] exI [of _ B]) auto
qed

theorem simulate_returns_B_unless_A_greater_witness:
  "''Uniswap'' \<in> registered \<and> ''Aerodrome'' \<in> registered \<and>
   (\<exists>A B.
      calculateArbDirection example_config ''Uniswap'' ''Aerodrome'' (Fin False 90000) (Fin False 90200)
        (jsdiv (getArbTradeSizeUSDC (Fin False 0) (Fin False 5)) (Fin False 90000))
        (getArbTradeSizeUSDC (Fin False 0) (Fin False 5)) (Fin False 0) = Inr A
    \<and> calculateArbDirection example_config ''Aerodrome'' ''Uniswap'' (Fin False 90200) (Fin False 90000)
        (jsdiv (getArbTradeSizeUSDC (Fin False 0) (Fin False 5)) (Fin False 90200))
        (getArbTradeSizeUSDC (Fin False 0) (Fin False 5)) (Fin False 0) = Inr B
    \<and> simulateArbitrageForPair example_config ''Uniswap'' (Fin False 90000) ''Aerodrome'' (Fin False 90200)
        (Fin False 0) (Fin False 5) =
        Inr (if jsgt (netProfitUSDC A) (netProfitUSDC B) then A else B))"
proof -
  have r: "''Uniswap'' \<in> registered" "''Aerodrome'' \<in> registered" by (simp_all add: registered_def)
  from simulate_returns_B_unless_A_greater [OF r, of example_config "Fin False 90000" "Fin False 90200"
      "Fin False 0" "Fin False 5"]
  show ?thesis using r by blast
qed

text \<open>
  With an empty budget both directions between Uniswap (at 90000) and Aerodrome (at 90200)
  lose exactly the gas, the same amount, and the result is the second direction: it buys
  on Aerodrome, the second-named venue, not on the first-named one.
\<close>

theorem simulate_tie_counterexample:
  "map_sum id netProfitUSDC (calculateArbDirection example_config ''Uniswap'' ''Aerodrome''
      (Fin False 90000) (Fin False 90200)
      (jsdiv (getArbTradeSizeUSDC (Fin False 0) (Fin False 5)) (Fin False 90000))
      (getArbTradeSizeUSDC (Fin False 0) (Fin False 5)) (Fin False 0))
     = Inr (Fin True (1297036692682703 / 2 ^ 57))
   \<and> map_sum id netProfitUSDC (calculateArbDirection example_config ''Aerodrome'' ''Uniswap''
      (Fin False 90200) (Fin False 90000)
      (jsdiv (getArbTradeSizeUSDC (Fin False 0) (Fin False 5)) (Fin False 90200))
      (getArbTradeSizeUSDC (Fin False 0) (Fin False 5)) (Fin False 0))
     = Inr (Fin True (1297036692682703 / 2 ^ 57))
   \<and> map_sum id buyDex (simulateArbitrageForPair example_config
      ''Uniswap'' (Fin False 90000) ''Aerodrome'' (Fin False 90200) (Fin False 0) (Fin False 5))
     = Inr ''Aerodrome''
   \<and> map_sum id sellDex (simulateArbitrageForPair example_config
      ''Uniswap'' (Fin False 90000) ''Aerodrome'' (Fin False 90200) (Fin False 0) (Fin False 5))
     = Inr ''Uniswap''"
  by (simp add: sim_eval example_config_def example_costs_eval js_eval)

section \<open>Unknown venues\<close>

text \<open>
  Claim C6. When one of the two venue names of a simulation is not registered, the cost
  model lookup fails with the error \<open>Unknown DEX\<close> for that name (the first-named venue is
  looked up first), the simulation call fails with that error, and the step that simulates
  and compounds returns the error together with the unchanged state, the budget included.
\<close>

theorem unknown_venue_aborts_simulation:
  assumes "dex1 p \<notin> registered \<or> dex2 p \<notin> registered"
  shows "simulateArbitrageForPair cfg (dex1 p) (price1 p) (dex2 p) (price2 p)
           (overallBudgetUSDC st) (budgetPercent st)
         = Inl (Error (''Unknown DEX: '' @ (if dex1 p \<notin> registered then dex1 p else dex2 p)))
       \<and> simulateAndCompound cfg st p
         = (Some (Error (''Unknown DEX: '' @ (if dex1 p \<notin> registered then dex1 p else dex2 p))), st)
       \<and> getDexCostModel cfg (if dex1 p \<notin> registered then dex1 p else dex2 p)
         = Inl (Error (''Unknown DEX: '' @ (if dex1 p \<notin> registered then dex1 p else dex2 p)))"
proof (cases "dex1 p \<in> registered")
  case True
  with assms have u: "dex2 p \<notin> registered" by simp
  have "simulateArbitrageForPair cfg (dex1 p) (price1 p) (dex2 p) (price2 p)
           (overallBudgetUSDC st) (budgetPercent st) = Inl (Error (''Unknown DEX: '' @ dex2 p))"
    by (simp add: simulateArbitrageForPair_def Let_def bindE_def
        calculateArbDirection_unknown_sell [OF True u])
  then show ?thesis using True u
    by (simp add: simulateAndCompound_def getDexCostModel_unknown)
next
  case False
  have "simulateArbitrageForPair cfg (dex1 p) (price1 p) (dex2 p) (price2 p)
           (overallBudgetUSDC st) (budgetPercent st) = Inl (Error (''Unknown DEX: '' @ dex1 p))"
    by (simp add: simulateArbitrageForPair_def Let_def bindE_def
        calculateArbDirection_unknown_buy [OF False])
  then show ?thesis using False
    by (simp add: simulateAndCompound_def getDexCostModel_unknown)
qed

theorem unknown_venue_aborts_simulation_witness:
  "''SushiSwap'' \<notin> registered
   \<and> simulateArbitrageForPair example_config ''SushiSwap'' (Fin False 90000) ''Uniswap'' (Fin False 90200)
        (overallBudgetUSDC example_state) (budgetPercent example_state)
      = Inl (Error ''Unknown DEX: SushiSwap'')
   \<and> simulateAndCompound example_config example_state
        \<lparr>dex1 = ''SushiSwap'', dex2 = ''Uniswap'', spread = Fin False 1,
         price1 = Fin False 90000, price2 = Fin False 90200\<rparr>
      = (Some (Error ''Unknown DEX: SushiSwap''), example_state)"
proof -
  have h: "''SushiSwap'' \<notin> registered" by (simp add: registered_def)
  then have "dex1 \<lparr>dex1 = ''SushiSwap'', dex2 = ''Uniswap'', spread = Fin False 1,
           price1 = Fin False 90000, price2 = Fin False 90200\<rparr> \<notin> registered
    \<or> dex2 \<lparr>dex1 = ''SushiSwap'', dex2 = ''Uniswap'', spread = Fin False 1,
           price1 = Fin False 90000, price2 = Fin False 90200\<rparr> \<notin> registered" by simp
  from unknown_venue_aborts_simulation [OF this, of example_config example_state] h
  show ?thesis by simp
qed

section \<open>The price derivation\<close>

lemma calculatePrice_eq_spec:
  "calculatePrice (cfg\<lparr>cbBTC_decimals := int b, USDC_decimals := int q\<rparr>) (VBigInt S) isInv
     = Inr (spec_derivePrice S isInv b q)"
  by (simp add: calculatePrice_def bindE_def bigint_pow_def Q96_def Let_def
      spec_derivePrice_def spec_ratio_def)

lemma calculateAerodromePrice_eq: "calculateAerodromePrice = calculatePrice"
  by (intro ext) (simp add: calculateAerodromePrice_def calculatePrice_def)

lemma calculatePrice_BigInt_fails:
  "BigInt v = Inl e \<Longrightarrow> calculatePrice cfg v isInv = Inl e"
  by (simp add: calculatePrice_def bindE_def)

text \<open>
  Claim C2. For every integer raw sample \<open>S\<close> (the nonnegative ones in particular) and all
  decimal counts, the price of a venue that is not inverted is the floating-point quotient
  of the two big integers \<open>S * S * 10^quoteDecimals\<close> and \<open>2^96 * 2^96 * 10^baseDecimals\<close>,
  each computed exactly and converted to a number only for the division, and the price of
  an inverted venue is 1 divided by that quotient. Both price functions of the program
  agree with the derivation of the specification.
\<close>

theorem price_is_ratio_of_big_integers:
  "derivePrice cfg S False (int baseDecimals) (int quoteDecimals)
     = Inr (jsdiv (Number_of_bigint (S * S * 10 ^ quoteDecimals))
                  (Number_of_bigint (2 ^ 96 * 2 ^ 96 * 10 ^ baseDecimals)))
   \<and> derivePrice cfg S True (int baseDecimals) (int quoteDecimals)
     = Inr (jsdiv (Fin False 1)
             (jsdiv (Number_of_bigint (S * S * 10 ^ quoteDecimals))
                    (Number_of_bigint (2 ^ 96 * 2 ^ 96 * 10 ^ baseDecimals))))
   \<and> derivePrice cfg S isInv (int baseDecimals) (int quoteDecimals)
     = Inr (spec_derivePrice S isInv baseDecimals quoteDecimals)
   \<and> calculateAerodromePrice (cfg\<lparr>cbBTC_decimals := int baseDecimals, USDC_decimals := int quoteDecimals\<rparr>)
        (VBigInt S) isInv
     = Inr (spec_derivePrice S isInv baseDecimals quoteDecimals)"
  by (simp add: derivePrice_def calculatePrice_eq_spec calculateAerodromePrice_eq
      spec_derivePrice_def spec_ratio_def)

text \<open>
  Both branches of \<open>calculatePrice\<close> scale the raw ratio by the same factor
  \<open>10^quoteDecimals / 10^baseDecimals\<close>: the inverted derivation is the reciprocal of the
  derivation that is not inverted with the same decimals in the same order.
\<close>

lemma inverted_is_reciprocal_same_decimals:
  "derivePrice cfg S True d0 d1 = bindE (derivePrice cfg S False d0 d1) (\<lambda>p. Inr (jsdiv (Fin False 1) p))"
  by (simp add: derivePrice_def calculatePrice_def bindE_def Let_def split: sum.splits)

text \<open>
  Claim C7. The round trip between the inverted derivation with decimals \<open>(d0, d1)\<close> and the
  derivation that is not inverted with decimals \<open>(d1, d0)\<close> does not hold in the program.
  The sample \<open>30 * 2^96\<close> is a raw ratio of 900 units of token1 per unit of token0. Read as
  an inverted pool whose base asset has 6 decimals and whose quote asset has 8, the price
  is the number nearest to 1/90000. Read as a pool that is not inverted, base asset with 8
  decimals and quote asset with 6, the program returns 9, where 900 raw units of the
  quote per raw unit of the base are 90000; the reciprocal of 9 is about 0.111 and not
  about 1/90000.
\<close>

theorem inversion_round_trip_fails:
  "derivePrice example_config (30 * 2 ^ 96) True 6 8 = Inr (Fin False (819855292164869 / 2 ^ 66))
   \<and> derivePrice example_config (30 * 2 ^ 96) False 8 6 = Inr (Fin False 9)
   \<and> map_sum id (jsdiv (Fin False 1)) (derivePrice example_config (30 * 2 ^ 96) False 8 6)
       = Inr (Fin False (2001599834386887 / 2 ^ 54))"
  by (simp add: derivePrice_def calculatePrice_def bindE_def bigint_pow_def Q96_def js_eval)

text \<open>
  Claim C9, as the program has it. A raw value that is a number but not an integer, which
  is a number with a fractional part, NaN, \<open>+Infinity\<close> or \<open>-Infinity\<close>, makes the price
  derivation fail (the conversion to a BigInt throws a RangeError), and each of the three
  Swap handlers then reports the error and leaves the whole state, the stored prices
  included, unchanged. A negative integer is not rejected: its price is that of its
  absolute value.
\<close>

theorem non_integer_sample_fails:
  assumes "of_int \<lfloor>m\<rfloor> \<noteq> m"
  shows "calculatePrice cfg (VNumber (Fin s m)) isInv = Inl RangeError
       \<and> calculateAerodromePrice cfg (VNumber (Fin s m)) isInv = Inl RangeError
       \<and> onSwap cfg st (UniswapSwap (VNumber (Fin s m))) = (Some RangeError, st)
       \<and> onSwap cfg st (AerodromeSwap (VNumber (Fin s m))) = (Some RangeError, st)
       \<and> onSwap cfg st (PancakeSwap (VNumber (Fin s m))) = (Some RangeError, st)
       \<and> calculatePrice cfg (VBigInt (- n)) isInv = calculatePrice cfg (VBigInt n) isInv
       \<and> BigInt (VNumber (Fin s m)) = Inl RangeError
       \<and> BigInt (VNumber NaN) = Inl RangeError
       \<and> BigInt (VNumber (Inf t)) = Inl RangeError
       \<and> calculatePrice cfg (VNumber NaN) isInv = Inl RangeError
       \<and> calculatePrice cfg (VNumber (Inf t)) isInv = Inl RangeError
       \<and> calculateAerodromePrice cfg (VNumber NaN) isInv = Inl RangeError
       \<and> calculateAerodromePrice cfg (VNumber (Inf t)) isInv = Inl RangeError
       \<and> onSwap cfg st (UniswapSwap (VNumber NaN)) = (Some RangeError, st)
       \<and> onSwap cfg st (AerodromeSwap (VNumber NaN)) = (Some RangeError, st)
       \<and> onSwap cfg st (PancakeSwap (VNumber NaN)) = (Some RangeError, st)
       \<and> onSwap cfg st (UniswapSwap (VNumber (Inf t))) = (Some RangeError, st)
       \<and> onSwap cfg st (AerodromeSwap (VNumber (Inf t))) = (Some RangeError, st)
       \<and> onSwap cfg st (PancakeSwap (VNumber (Inf t))) = (Some RangeError, st)"
proof -
  have b: "BigInt (VNumber (Fin s m)) = Inl RangeError" using assms by simp
  have bn: "BigInt (VNumber NaN) = Inl RangeError" "BigInt (VNumber (Inf t)) = Inl RangeError"
    by simp_all
  have p: "calculatePrice cfg (VNumber (Fin s m)) isInv = Inl RangeError" for isInv
    using b by (rule calculatePrice_BigInt_fails)
  have pn: "calculatePrice cfg (VNumber NaN) isInv = Inl RangeError" for isInv
    using bn(1) by (rule calculatePrice_BigInt_fails)
  have pi: "calculatePrice cfg (VNumber (Inf t)) isInv = Inl RangeError" for isInv
    using bn(2) by (rule calculatePrice_BigInt_fails)
  have neg: "calculatePrice cfg (VBigInt (- n)) isInv = calculatePrice cfg (VBigInt n) isInv"
    by (simp add: calculatePrice_def bindE_def)
  show ?thesis
    using b bn p pn pi neg
    by (simp add: calculateAerodromePrice_eq onUniswapSwap_def onAerodromeSwap_def onPancakeSwap_def)
qed

text \<open>The theorem at the number 2.5, with NaN and \<open>+Infinity\<close> beside it.\<close>

theorem non_integer_sample_fails_witness:
  "rat_of_int \<lfloor>5 / 2 :: rat\<rfloor> \<noteq> 5 / 2
   \<and> BigInt (VNumber (Fin False (5 / 2))) = Inl RangeError
   \<and> calculatePrice example_config (VNumber (Fin False (5 / 2))) True = Inl RangeError
   \<and> onSwap example_config example_state (UniswapSwap (VNumber (Fin False (5 / 2))))
       = (Some RangeError, example_state)
   \<and> calculatePrice example_config (VNumber NaN) True = Inl RangeError
   \<and> onSwap example_config example_state (AerodromeSwap (VNumber (Inf False)))
       = (Some RangeError, example_state)"
proof -
  have h: "rat_of_int \<lfloor>5 / 2 :: rat\<rfloor> \<noteq> 5 / 2" by (simp add: floor_rat_numeral_div)
  from non_integer_sample_fails [OF h, of example_config False True example_state 0 False] h
  show ?thesis by blast
qed

text \<open>The negative sample \<open>- 2^96\<close> is priced, at the number nearest to 0.01, and not rejected.\<close>

theorem negative_sample_counterexample:
  "calculatePrice example_config (VBigInt (- (2 ^ 96))) False
     = Inr (Fin False (5764607523034235 / 2 ^ 59))"
  by (simp add: calculatePrice_def example_config_def bindE_def bigint_pow_def Q96_def js_eval)

section \<open>The best spread\<close>

lemmas spread_eval = maxSpreadPair_def spreads_def calculateSpread_def pickMax_def jssub_def jsgt_def


text \<open>
  Claim C3, as the program has it. With the three prices Uniswap 90000, Aerodrome 89900 and
  PancakeSwap 90200 the absolute percentage spreads of the pairs are about 0.111 (Uniswap,
  Aerodrome), 0.222 (Uniswap, PancakeSwap) and 0.334 (Aerodrome, PancakeSwap), and the
  selection of the maximal one returns the pair (Aerodrome, PancakeSwap).
\<close>

theorem best_spread_is_Aerodrome_PancakeSwap:
  "spreads (st\<lparr>lastUniswapPrice := Fin False 90000, lastAerodromePrice := Fin False 89900,
               lastPancakePrice := Fin False 90200\<rparr>)
     = [\<lparr>dex1 = ''Uniswap'', dex2 = ''Aerodrome'', spread = Fin False (2001599834386887 / 2 ^ 54),
          price1 = Fin False 90000, price2 = Fin False 89900\<rparr>,
        \<lparr>dex1 = ''Uniswap'', dex2 = ''PancakeSwap'', spread = Fin False (2001599834386887 / 2 ^ 53),
          price1 = Fin False 90000, price2 = Fin False 90200\<rparr>,
        \<lparr>dex1 = ''Aerodrome'', dex2 = ''PancakeSwap'', spread = Fin False (6011478924187537 / 2 ^ 54),
          price1 = Fin False 89900, price2 = Fin False 90200\<rparr>]
   \<and> maxSpreadPair (st\<lparr>lastUniswapPrice := Fin False 90000, lastAerodromePrice := Fin False 89900,
               lastPancakePrice := Fin False 90200\<rparr>)
     = Inr \<lparr>dex1 = ''Aerodrome'', dex2 = ''PancakeSwap'', spread = Fin False (6011478924187537 / 2 ^ 54),
          price1 = Fin False 89900, price2 = Fin False 90200\<rparr>"
  by (simp add: spread_eval js_eval)

text \<open>In the example state, which has these prices, the selected pair does not start with Uniswap.\<close>

theorem best_spread_Uniswap_PancakeSwap_counterexample:
  "map_sum id dex1 (maxSpreadPair example_state) = Inr ''Aerodrome''
   \<and> map_sum id dex2 (maxSpreadPair example_state) = Inr ''PancakeSwap''
   \<and> map_sum id dex1 (maxSpreadPair example_state) \<noteq> Inr ''Uniswap''"
  by (simp add: example_state_def spread_eval js_eval)

section \<open>Monotonicity of the price\<close>

lemma denominator_8: "Number_of_bigint (2 ^ 96 * 2 ^ 96 * 10 ^ 8) = Fin False (2 ^ 96 * 2 ^ 96 * 10 ^ 8)"
  by (simp add: js_eval)

text \<open>
  Claim C8, as the program has it. With 8 base decimals and 6 quote decimals the price of
  a venue that is not inverted is weakly increasing in the raw sample: for nonnegative
  \<open>S1 \<le> S2\<close> both derivations succeed and the first price is less than or equal to the
  second. It is not strictly increasing, because the conversion of the big integers to
  numbers rounds to 53 significant bits.
\<close>

theorem price_weakly_increasing:
  assumes "0 \<le> S1" and "S1 \<le> S2"
  shows "\<exists>p1 p2. derivePrice cfg S1 False 8 6 = Inr p1 \<and> derivePrice cfg S2 False 8 6 = Inr p2
           \<and> jsle p1 p2"
proof -
  have d: "derivePrice cfg S False 8 6 = Inr (spec_derivePrice S False 8 6)" for S
    using calculatePrice_eq_spec [where cfg = cfg and b = 8 and q = 6 and S = S and isInv = False]
    by (simp add: derivePrice_def)
  have "S1 * S1 \<le> S2 * S2" using assms by (intro mult_mono) auto
  then have le: "S1 * S1 * 10 ^ 6 \<le> S2 * S2 * 10 ^ 6" by simp
  have nn: "0 \<le> S * S * 10 ^ 6" for S :: int by simp
  have "jsle (Number_of_bigint (S1 * S1 * 10 ^ 6)) (Number_of_bigint (S2 * S2 * 10 ^ 6))"
    by (rule Number_of_bigint_mono [OF nn le])
  moreover have "nonneg_num (Number_of_bigint (S * S * 10 ^ 6))" for S :: int
    using nonneg_mk [of "of_int (S * S * 10 ^ 6)"] nn [of S]
    by (simp add: Number_of_bigint_def del: of_int_mult of_int_power)
  ultimately have "jsle (spec_derivePrice S1 False 8 6) (spec_derivePrice S2 False 8 6)"
    unfolding spec_derivePrice_def spec_ratio_def denominator_8
    by (simp add: jsdiv_mono)
  then show ?thesis using d by blast
qed

theorem price_weakly_increasing_witness:
  "(0::int) \<le> 3000 * 2 ^ 96 \<and> (3000 * 2 ^ 96 :: int) \<le> 3000 * 2 ^ 96 + 1
   \<and> (\<exists>p1 p2. derivePrice example_config (3000 * 2 ^ 96) False 8 6 = Inr p1
        \<and> derivePrice example_config (3000 * 2 ^ 96 + 1) False 8 6 = Inr p2 \<and> jsle p1 p2)"
proof -
  have h: "(0::int) \<le> 3000 * 2 ^ 96" "(3000 * 2 ^ 96 :: int) \<le> 3000 * 2 ^ 96 + 1" by simp_all
  from price_weakly_increasing [OF h, of example_config] h show ?thesis by blast
qed

text \<open>The samples \<open>3000 * 2^96\<close> and \<open>3000 * 2^96 + 1\<close> have the same price, 90000.\<close>

theorem price_not_strictly_increasing_counterexample:
  "derivePrice example_config (3000 * 2 ^ 96) False 8 6 = Inr (Fin False 90000)
   \<and> derivePrice example_config (3000 * 2 ^ 96 + 1) False 8 6 = Inr (Fin False 90000)
   \<and> \<not> jslt (Fin False 90000) (Fin False 90000)"
  by (simp add: derivePrice_def calculatePrice_def bindE_def bigint_pow_def Q96_def js_eval)

section \<open>The budget\<close>

lemma jsle_refl: "budget_ok b \<Longrightarrow> jsle b b"
  by (cases b) (auto simp: budget_ok_def jsle_def)

lemma jsle_trans: "jsle a b \<Longrightarrow> jsle b c \<Longrightarrow> jsle a c"
  by (cases a; cases b; cases c) (auto simp: jsle_def)

text \<open>Adding a positive amount to a well-formed budget does not lower it.\<close>

lemma jsadd_profit:
  assumes "budget_ok b" and "jsgt p (Fin False 0)"
  shows "budget_ok (jsadd b p) \<and> jsle b (jsadd b p)"
proof (cases b)
  case (Fin s m)
  then have m: "0 \<le> m" "rnd m = m" "ilog2 m < 1024" using assms(1) by (auto simp: budget_ok_def)
  show ?thesis
  proof (cases p)
    case p: (Fin t n)
    define v where "v = sval s m + sval t n"
    have pv: "0 < sval t n" using assms(2) p by (simp add: jsgt_def sval_def)
    have sum: "jsadd b p = (if v = 0 then Fin (s \<and> t) 0 else mk (v < 0) \<bar>v\<bar>)"
      by (simp add: Fin p v_def Let_def)
    consider (zero) "v = 0" | (neg) "v < 0" | (pos) "0 < v" by linarith
    then show ?thesis
    proof cases
      case zero
      then have "sval s m < 0" using pv by (simp add: v_def)
      then show ?thesis using zero sum Fin m(1)
        by (auto simp: budget_ok_def jsle_def sval_def ilog2_nonpos split: if_splits)
    next
      case neg
      then have s: "s" "\<bar>v\<bar> \<le> m" "0 \<le> \<bar>v\<bar>" using pv m(1) by (auto simp: v_def sval_def split: if_splits)
      have le: "rnd \<bar>v\<bar> \<le> m" using rnd_mono [OF s(3,2)] m(2) by simp
      have "ilog2 (rnd \<bar>v\<bar>) < 1024"
      proof (cases "rnd \<bar>v\<bar> = 0")
        case True
        then show ?thesis by (simp add: ilog2_nonpos)
      next
        case False
        then have "0 < rnd \<bar>v\<bar>" using rnd_nonneg [OF s(3)] by linarith
        then have "ilog2 (rnd \<bar>v\<bar>) \<le> ilog2 m" using le by (rule ilog2_mono)
        then show ?thesis using m(3) by linarith
      qed
      then have "jsadd b p = Fin True (rnd \<bar>v\<bar>)" using sum neg by (simp add: mk_def Let_def)
      then show ?thesis using le s Fin rnd_nonneg [OF s(3)] rnd_idem [OF s(3)] \<open>ilog2 (rnd \<bar>v\<bar>) < 1024\<close>
        by (auto simp: budget_ok_def jsle_def sval_def)
    next
      case pos
      then have sum': "jsadd b p = mk False v" using sum by simp
      have ok: "budget_ok (mk False v)"
        using is_double_mk [of v False] pos by (auto simp: budget_ok_def mk_def Let_def)
      have "sval s m \<le> rnd v"
      proof (cases s)
        case True
        then show ?thesis using m(1) rnd_nonneg [of v] pos by (simp add: sval_def)
      next
        case False
        then have "m \<le> v" using pv by (simp add: v_def sval_def)
        then have "rnd m \<le> rnd v" by (rule rnd_mono [OF m(1)])
        then show ?thesis using False m(2) by (simp add: sval_def)
      qed
      then have "jsle (Fin s m) (mk False v)"
        by (cases rule: mk_cases [of False v]) (auto simp: jsle_def sval_def)
      then show ?thesis using ok sum' Fin by simp
    qed
  next
    case (Inf t)
    then show ?thesis using assms Fin by (auto simp: budget_ok_def jsle_def jsgt_def)
  next
    case NaN
    then show ?thesis using assms by (simp add: jsgt_def)
  qed
next
  case (Inf s)
  then show ?thesis using assms by (cases p) (auto simp: budget_ok_def jsle_def jsgt_def)
next
  case NaN
  then show ?thesis using assms by (simp add: budget_ok_def)
qed

lemma simulateAndCompound_budget:
  "overallBudgetUSDC (snd (simulateAndCompound cfg st p)) =
     (case simulateArbitrageForPair cfg (dex1 p) (price1 p) (dex2 p) (price2 p)
             (overallBudgetUSDC st) (budgetPercent st) of
        Inl e \<Rightarrow> overallBudgetUSDC st
      | Inr r \<Rightarrow> if isProfitable r \<and> jsgt (netProfitUSDC r) (Fin False 0)
                then jsadd (overallBudgetUSDC st) (netProfitUSDC r)
                else overallBudgetUSDC st)"
  by (simp add: simulateAndCompound_def split: sum.splits)

lemma simulateAndCompound_mono:
  assumes "budget_ok (overallBudgetUSDC st)"
  shows "budget_ok (overallBudgetUSDC (snd (simulateAndCompound cfg st p)))
       \<and> jsle (overallBudgetUSDC st) (overallBudgetUSDC (snd (simulateAndCompound cfg st p)))"
  using assms jsadd_profit [OF assms] jsle_refl [OF assms]
  by (simp add: simulateAndCompound_budget split: sum.splits)

lemma findAndSimulate_mono:
  assumes "budget_ok (overallBudgetUSDC st)"
  shows "budget_ok (overallBudgetUSDC (snd (findAndSimulateBestSpread cfg st)))
       \<and> jsle (overallBudgetUSDC st) (overallBudgetUSDC (snd (findAndSimulateBestSpread cfg st)))"
  using assms simulateAndCompound_mono [OF assms] jsle_refl [OF assms]
  by (simp add: findAndSimulateBestSpread_def split: sum.splits)

lemma findAndSimulate_only_profit:
  "overallBudgetUSDC (snd (findAndSimulateBestSpread cfg st)) = overallBudgetUSDC st
   \<or> (\<exists>(p::spread_entry) (r::arb_result). simulateArbitrageForPair cfg (dex1 p) (price1 p) (dex2 p) (price2 p)
               (overallBudgetUSDC st) (budgetPercent st) = Inr r
         \<and> isProfitable r \<and> jsgt (netProfitUSDC r) (Fin False 0)
         \<and> overallBudgetUSDC (snd (findAndSimulateBestSpread cfg st))
             = jsadd (overallBudgetUSDC st) (netProfitUSDC r))"
proof (cases "maxSpreadPair st")
  case (Inl e)
  then show ?thesis by (simp add: findAndSimulateBestSpread_def)
next
  case (Inr p)
  then have f: "findAndSimulateBestSpread cfg st = simulateAndCompound cfg st p"
    by (simp add: findAndSimulateBestSpread_def)
  show ?thesis
  proof (cases "simulateArbitrageForPair cfg (dex1 p) (price1 p) (dex2 p) (price2 p)
               (overallBudgetUSDC st) (budgetPercent st)")
    case (Inl e)
    then show ?thesis by (simp add: f simulateAndCompound_budget)
  next
    case r: (Inr r)
    show ?thesis
    proof (cases "isProfitable r \<and> jsgt (netProfitUSDC r) (Fin False 0)")
      case True
      then have "overallBudgetUSDC (snd (findAndSimulateBestSpread cfg st))
             = jsadd (overallBudgetUSDC st) (netProfitUSDC r)"
        by (simp add: f simulateAndCompound_budget r)
      with r True show ?thesis by (intro disjI2 exI [of _ p] exI [of _ r]) simp
    next
      case False
      then have "overallBudgetUSDC (snd (findAndSimulateBestSpread cfg st)) = overallBudgetUSDC st"
        by (auto simp: f simulateAndCompound_budget r)
      then show ?thesis by (rule disjI1)
    qed
  qed
qed

lemma onSwap_cases:
  "snd (onSwap cfg st ev) = st
   \<or> (\<exists>st'. overallBudgetUSDC st' = overallBudgetUSDC st \<and> budgetPercent st' = budgetPercent st
         \<and> snd (onSwap cfg st ev) = snd (findAndSimulateBestSpread cfg st'))"
proof (cases ev)
  case (UniswapSwap v)
  show ?thesis
  proof (cases "calculatePrice cfg v (uniswapIsInverted st)")
    case (Inl e)
    then show ?thesis using UniswapSwap by (simp add: onUniswapSwap_def)
  next
    case (Inr np)
    show ?thesis
    proof (cases "jsgt (jsabs (jssub np (lastUniswapPrice st))) (priceChange cfg)")
      case True
      then have "snd (onSwap cfg st ev) = snd (findAndSimulateBestSpread cfg (st\<lparr>lastUniswapPrice := np\<rparr>))"
        using UniswapSwap Inr by (simp add: onUniswapSwap_def)
      then show ?thesis by (intro disjI2 exI [of _ "st\<lparr>lastUniswapPrice := np\<rparr>"]) simp
    next
      case False
      then show ?thesis using UniswapSwap Inr by (simp add: onUniswapSwap_def)
    qed
  qed
next
  case (AerodromeSwap v)
  show ?thesis
  proof (cases "calculateAerodromePrice cfg v (aerodromeIsInverted st)")
    case (Inl e)
    then show ?thesis using AerodromeSwap by (simp add: onAerodromeSwap_def)
  next
    case (Inr np)
    show ?thesis
    proof (cases "jsgt (jsabs (jssub np (lastAerodromePrice st))) (priceChange cfg)")
      case True
      then have "snd (onSwap cfg st ev) = snd (findAndSimulateBestSpread cfg (st\<lparr>lastAerodromePrice := np\<rparr>))"
        using AerodromeSwap Inr by (simp add: onAerodromeSwap_def)
      then show ?thesis by (intro disjI2 exI [of _ "st\<lparr>lastAerodromePrice := np\<rparr>"]) simp
    next
      case False
      then show ?thesis using AerodromeSwap Inr by (simp add: onAerodromeSwap_def)
    qed
  qed
next
  case (PancakeSwap v)
  show ?thesis
  proof (cases "calculatePrice cfg v (pancakeIsInverted st)")
    case (Inl e)
    then show ?thesis using PancakeSwap by (simp add: onPancakeSwap_def)
  next
    case (Inr np)
    show ?thesis
    proof (cases "jsgt (jsabs (jssub np (lastPancakePrice st))) (priceChange cfg)")
      case True
      then have "snd (onSwap cfg st ev) = snd (findAndSimulateBestSpread cfg (st\<lparr>lastPancakePrice := np\<rparr>))"
        using PancakeSwap Inr by (simp add: onPancakeSwap_def)
      then show ?thesis by (intro disjI2 exI [of _ "st\<lparr>lastPancakePrice := np\<rparr>"]) simp
    next
      case False
      then show ?thesis using PancakeSwap Inr by (simp add: onPancakeSwap_def)
    qed
  qed
qed

lemma onSwap_mono:
  assumes "budget_ok (overallBudgetUSDC st)"
  shows "budget_ok (overallBudgetUSDC (snd (onSwap cfg st ev)))
       \<and> jsle (overallBudgetUSDC st) (overallBudgetUSDC (snd (onSwap cfg st ev)))"
  using onSwap_cases [of cfg st ev]
proof (elim disjE exE conjE)
  assume "snd (onSwap cfg st ev) = st"
  then show ?thesis using assms jsle_refl [OF assms] by simp
next
  fix st'
  assume b: "overallBudgetUSDC st' = overallBudgetUSDC st"
    and s: "snd (onSwap cfg st ev) = snd (findAndSimulateBestSpread cfg st')"
  have "budget_ok (overallBudgetUSDC st')" using assms b by simp
  from findAndSimulate_mono [OF this, of cfg] show ?thesis using b s by simp
qed

lemma onSwap_only_profit:
  "overallBudgetUSDC (snd (onSwap cfg st ev)) = overallBudgetUSDC st
   \<or> (\<exists>(p::spread_entry) (r::arb_result). simulateArbitrageForPair cfg (dex1 p) (price1 p) (dex2 p) (price2 p)
               (overallBudgetUSDC st) (budgetPercent st) = Inr r
         \<and> isProfitable r \<and> jsgt (netProfitUSDC r) (Fin False 0)
         \<and> overallBudgetUSDC (snd (onSwap cfg st ev))
             = jsadd (overallBudgetUSDC st) (netProfitUSDC r))"
  using onSwap_cases [of cfg st ev]
proof (elim disjE exE conjE)
  assume "snd (onSwap cfg st ev) = st"
  then show ?thesis by simp
next
  fix st'
  assume b: "overallBudgetUSDC st' = overallBudgetUSDC st" "budgetPercent st' = budgetPercent st"
    and s: "snd (onSwap cfg st ev) = snd (findAndSimulateBestSpread cfg st')"
  from findAndSimulate_only_profit [of cfg st'] show ?thesis unfolding b s [symmetric] .
qed

lemma run_mono:
  assumes "budget_ok (overallBudgetUSDC st)"
  shows "budget_ok (overallBudgetUSDC (run cfg st evs))
       \<and> jsle (overallBudgetUSDC st) (overallBudgetUSDC (run cfg st evs))"
  using assms
proof (induction evs arbitrary: st)
  case Nil
  then show ?case using jsle_refl by (simp add: run_def)
next
  case (Cons ev evs)
  from onSwap_mono [OF Cons.prems, of cfg ev]
  have ok: "budget_ok (overallBudgetUSDC (snd (onSwap cfg st ev)))"
    and le: "jsle (overallBudgetUSDC st) (overallBudgetUSDC (snd (onSwap cfg st ev)))" by auto
  have "run cfg st (ev # evs) = run cfg (snd (onSwap cfg st ev)) evs" by (simp add: run_def)
  with Cons.IH [OF ok] le show ?case by (auto intro: jsle_trans)
qed


subsection \<open>An example cycle\<close>

lemma example_price:
  "calculatePrice example_config (VBigInt 2637278403947872959856987384) True
     = Inr (Fin False (6201932775423999 / 68719476736))"
  by (simp add: calculatePrice_def example_config_def bindE_def bigint_pow_def Q96_def js_eval)

lemma example_max:
  "maxSpreadPair (example_state\<lparr>lastPancakePrice := Fin False (6201932775423999 / 68719476736)\<rparr>)
     = Inr \<lparr>dex1 = ''Aerodrome'', dex2 = ''PancakeSwap'',
            spread = Fin False (7013392078218501 / 18014398509481984),
            price1 = Fin False 89900, price2 = Fin False (6201932775423999 / 68719476736)\<rparr>"
  by (simp add: example_state_def spread_eval js_eval)

lemma example_sim:
  "map_sum id netProfitUSDC (simulateArbitrageForPair example_config
      ''Aerodrome'' (Fin False 89900) ''PancakeSwap'' (Fin False (6201932775423999 / 68719476736))
      (Fin False 10000) (Fin False 5))
   = Inr (Fin False (14404546509601 / 8796093022208))"
  by (simp add: sim_eval example_config_def example_costs_eval js_eval)

lemma example_cycle:
  "overallBudgetUSDC (snd (onSwap example_config example_state
      (PancakeSwap (VBigInt 2637278403947872959856987384))))
   = Fin False (2749229211518425 / 274877906944)"
proof -
  define st where "st = example_state\<lparr>lastPancakePrice := Fin False (6201932775423999 / 68719476736)\<rparr>"
  have thr: "jsgt (jsabs (jssub (Fin False (6201932775423999 / 68719476736)) (lastPancakePrice example_state)))
      (priceChange example_config)"
    by (simp add: example_state_def example_config_def jssub_def jsgt_def js_eval)
  have isInv: "pancakeIsInverted example_state" by (simp add: example_state_def)
  have step: "onSwap example_config example_state (PancakeSwap (VBigInt 2637278403947872959856987384))
      = findAndSimulateBestSpread example_config st"
    using thr isInv example_price by (simp add: onPancakeSwap_def st_def)
  obtain r where r: "simulateArbitrageForPair example_config
      ''Aerodrome'' (Fin False 89900) ''PancakeSwap'' (Fin False (6201932775423999 / 68719476736))
      (Fin False 10000) (Fin False 5) = Inr r"
      and net: "netProfitUSDC r = Fin False (14404546509601 / 8796093022208)"
    using example_sim by (auto simp: map_sum_def split: sum.splits)
  have prof: "isProfitable r \<and> jsgt (netProfitUSDC r) (Fin False 0)"
    using simulate_profitable [OF r] net by (simp add: jsgt_def sval_def)
  have b: "overallBudgetUSDC st = Fin False 10000" "budgetPercent st = Fin False 5"
    by (simp_all add: st_def example_state_def js_eval)
  have "overallBudgetUSDC (snd (findAndSimulateBestSpread example_config st))
      = jsadd (Fin False 10000) (Fin False (14404546509601 / 8796093022208))"
    using example_max r prof net b
    by (simp add: findAndSimulateBestSpread_def simulateAndCompound_def st_def)
  also have "\<dots> = Fin False (2749229211518425 / 274877906944)" by (simp add: js_eval)
  finally show ?thesis unfolding step .
qed


subsection \<open>The budget never decreases\<close>

text \<open>
  Claim C4. Let the budget be well formed (a number other than NaN and \<open>-Infinity\<close>).
  Then after the handling of any Swap event, and after any sequence of them, the budget is
  again well formed and greater than or equal to the budget before; so it is after the
  simulation of the best spread, which is also what the initial analysis runs. The budget
  changes only by the addition of the net profit of a simulation that is profitable and
  has a net profit greater than zero; in every other case, a net profit of zero or less
  included, it is unchanged. A budget that is NaN stays NaN.
\<close>

theorem budget_never_decreases:
  assumes "budget_ok (overallBudgetUSDC st)"
  shows "budget_ok (overallBudgetUSDC (snd (onSwap cfg st ev)))
       \<and> jsle (overallBudgetUSDC st) (overallBudgetUSDC (snd (onSwap cfg st ev)))
       \<and> budget_ok (overallBudgetUSDC (run cfg st evs))
       \<and> jsle (overallBudgetUSDC st) (overallBudgetUSDC (run cfg st evs))
       \<and> jsle (overallBudgetUSDC st) (overallBudgetUSDC (snd (findAndSimulateBestSpread cfg st)))
       \<and> (overallBudgetUSDC (snd (onSwap cfg st ev)) = overallBudgetUSDC st
          \<or> (\<exists>(p::spread_entry) (r::arb_result). simulateArbitrageForPair cfg (dex1 p) (price1 p) (dex2 p) (price2 p)
                     (overallBudgetUSDC st) (budgetPercent st) = Inr r
               \<and> isProfitable r \<and> jsgt (netProfitUSDC r) (Fin False 0)
               \<and> overallBudgetUSDC (snd (onSwap cfg st ev))
                   = jsadd (overallBudgetUSDC st) (netProfitUSDC r)))
       \<and> overallBudgetUSDC (snd (simulateAndCompound cfg st p)) =
           (case simulateArbitrageForPair cfg (dex1 p) (price1 p) (dex2 p) (price2 p)
                   (overallBudgetUSDC st) (budgetPercent st) of
              Inl e \<Rightarrow> overallBudgetUSDC st
            | Inr r \<Rightarrow> if isProfitable r \<and> jsgt (netProfitUSDC r) (Fin False 0)
                      then jsadd (overallBudgetUSDC st) (netProfitUSDC r)
                      else overallBudgetUSDC st)
       \<and> overallBudgetUSDC (snd (onSwap cfg (st\<lparr>overallBudgetUSDC := NaN\<rparr>) ev)) = NaN"
proof -
  have "overallBudgetUSDC (snd (onSwap cfg (st\<lparr>overallBudgetUSDC := NaN\<rparr>) ev)) = NaN"
    using onSwap_only_profit [of cfg "st\<lparr>overallBudgetUSDC := NaN\<rparr>" ev] by auto
  with onSwap_mono [OF assms, of cfg ev] run_mono [OF assms, of cfg evs]
    findAndSimulate_mono [OF assms, of cfg] onSwap_only_profit [of cfg st ev]
    simulateAndCompound_budget [of cfg st p]
  show ?thesis by blast
qed

text \<open>
  The theorem at the example state and a PancakeSwap event that moves the price to about
  90250: the budget grows from 10000 to about 10001.64.
\<close>

theorem budget_never_decreases_witness:
  "budget_ok (overallBudgetUSDC example_state)
   \<and> overallBudgetUSDC example_state = Fin False 10000
   \<and> overallBudgetUSDC (snd (onSwap example_config example_state
        (PancakeSwap (VBigInt 2637278403947872959856987384))))
      = Fin False (2749229211518425 / 274877906944)
   \<and> budget_ok (overallBudgetUSDC (snd (onSwap example_config example_state
        (PancakeSwap (VBigInt 2637278403947872959856987384)))))
   \<and> jsle (overallBudgetUSDC example_state) (overallBudgetUSDC (snd (onSwap example_config example_state
        (PancakeSwap (VBigInt 2637278403947872959856987384)))))"
proof -
  have h: "budget_ok (overallBudgetUSDC example_state)"
    by (simp add: example_state_def budget_ok_def js_eval)
  have v: "overallBudgetUSDC example_state = Fin False 10000"
    by (simp add: example_state_def js_eval)
  from budget_never_decreases [OF h, of example_config
      "PancakeSwap (VBigInt 2637278403947872959856987384)" "[]"] h v example_cycle
  show ?thesis by simp
qed

section \<open>The zero sample\<close>

lemma Number_of_bigint_pos:
  assumes "0 < n"
  shows "Number_of_bigint n = Inf False \<or> (\<exists>r. 0 < r \<and> Number_of_bigint n = Fin False r)"
proof -
  have x: "1 \<le> (of_int n :: rat)" using assms by simp
  then have x0: "0 < (of_int n :: rat)" by linarith
  have "0 \<le> ilog2 (of_int n)"
    using ilog2_mono [of 1 "of_int n"] x ilog2_p2 [of 0] by simp
  then have "2 powi (ilog2 (of_int n)) \<le> rnd (of_int n)"
    by (intro rnd_lower [OF x0]) linarith
  then have "0 < rnd (of_int n)" using p2_pos [of "ilog2 (of_int n)"] by linarith
  then show ?thesis using assms by (auto simp: Number_of_bigint_def mk_def Let_def)
qed

lemma zero_over_Number:
  assumes "0 < n"
  shows "jsdiv (Fin False 0) (Number_of_bigint n) = Fin False 0"
  using Number_of_bigint_pos [OF assms] by auto

lemma calculateSpread_Inf: "calculateSpread a (Inf False) = NaN"
  by (cases a) (auto simp: calculateSpread_def jssub_def)

text \<open>NaN as the second operand, and the products that involve \<open>+Infinity\<close>.\<close>

lemma jsadd_NaN_right: "jsadd x NaN = NaN"
  by (cases x) auto

lemma jslt_NaN_right: "jslt x NaN = False"
  by (cases x) auto

lemma jsmul_NaN_right: "jsmul x NaN = NaN"
  by (cases x) auto

lemma div_Inf_mul_Inf: "jsmul (jsdiv x (Inf False)) (Inf False) = NaN"
  by (cases x) auto

lemma mul_Inf_mul_zero: "jsmul (jsmul y (Inf False)) (Fin False 0) = NaN"
  by (cases y) auto

lemma simulate_Inf_price:
  "\<exists>r::arb_result. simulateArbitrageForPair cfg ''Uniswap'' (Inf False) ''Aerodrome'' a budget pct = Inr r
     \<and> netProfitUSDC r = NaN \<and> isProfitable r = False
     \<and> buyDex r = ''Aerodrome'' \<and> sellDex r = ''Uniswap''
     \<and> buyPrice (details r) = a \<and> sellPrice (details r) = Inf False"
  by (simp add: sim_eval Let_def jsadd_NaN_right jslt_NaN_right jsmul_NaN_right
      div_Inf_mul_Inf mul_Inf_mul_zero)

lemma maxSpreadPair_Inf:
  assumes "lastUniswapPrice st = Inf False"
  shows "maxSpreadPair st = Inr \<lparr>dex1 = ''Uniswap'', dex2 = ''Aerodrome'', spread = NaN,
            price1 = Inf False, price2 = lastAerodromePrice st\<rparr>"
  using assms
  by (simp add: maxSpreadPair_def spreads_def Let_def pickMax_def calculateSpread_Inf jsgt_def
      jslt_NaN_right)

lemma findAndSimulate_Inf:
  assumes "lastUniswapPrice st = Inf False"
  shows "findAndSimulateBestSpread cfg st = (None, st)"
proof -
  obtain r :: arb_result where r: "simulateArbitrageForPair cfg ''Uniswap'' (Inf False) ''Aerodrome''
      (lastAerodromePrice st) (overallBudgetUSDC st) (budgetPercent st) = Inr r"
    and p: "isProfitable r = False"
    using simulate_Inf_price [of cfg "lastAerodromePrice st" "overallBudgetUSDC st" "budgetPercent st"]
    by blast
  show ?thesis
    by (simp add: findAndSimulateBestSpread_def maxSpreadPair_Inf [OF assms]
        simulateAndCompound_def r p)
qed

lemma calculatePrice_zero_inverted:
  assumes "0 \<le> cbBTC_decimals cfg" and "0 \<le> USDC_decimals cfg"
  shows "calculatePrice cfg (VBigInt 0) True = Inr (Inf False)"
proof -
  have den: "0 < Q96 * Q96 * 10 ^ nat (cbBTC_decimals cfg)" by (simp add: Q96_def)
  have z: "jsdiv (Number_of_bigint 0) (Number_of_bigint (Q96 * Q96 * 10 ^ nat (cbBTC_decimals cfg)))
      = Fin False 0"
    using zero_over_Number [OF den] by (simp add: Number_of_bigint_def)
  show ?thesis
    using assms z by (simp add: calculatePrice_def bindE_def bigint_pow_def Let_def)
qed

lemma later_event_Inf:
  assumes "lastUniswapPrice st = Inf False"
  shows "overallBudgetUSDC (snd (onSwap cfg st (AerodromeSwap v))) = overallBudgetUSDC st"
    and "overallBudgetUSDC (snd (onSwap cfg st (PancakeSwap v))) = overallBudgetUSDC st"
  using assms
  by (simp_all add: onAerodromeSwap_def onPancakeSwap_def findAndSimulate_Inf split: sum.splits)



end
